theory Spec2Isabelle
  imports Main
begin

section \<open>Data model of \<open>EventNotifier.ts\<close>\<close>

text \<open>
  An entry of the fetched events object: \<open>timestamp\<close> in epoch seconds, the \<open>refresh\<close>
  field that \<open>HelltideEvent\<close> carries (read only for the Helltide key), and the rest
  of the object as an opaque payload. Timestamps are integers of the range in which
  \<open>new Date(t * 1000).getTime()\<close> is \<open>t * 1000\<close>; times are in milliseconds, as
  \<open>Date.now()\<close> gives them.
\<close>

record event =
  timestamp :: int
  refresh :: int
  payload :: string

text \<open>A row of the \<open>notification\<close> table.\<close>

record notification =
  nid :: nat
  ntype :: string
  ndata :: event
  ntimestamp :: int
  refreshTimestamp :: int
  refreshed :: bool

text \<open>An entry of \<open>guild.events\<close>; the three ids are nullable strings.\<close>

record setting =
  stype :: string
  channelId :: "string option"
  roleId :: "string option"
  messageId :: "string option"

record guild =
  gid :: nat
  guildId :: string
  guild_locale :: string
  events :: "setting list"

text \<open>
  The outbound message object: \<open>embeds\<close> holds the arguments of each \<open>EventEmbed\<close>,
  \<open>allowedMentions\<close> is absent or the \<open>roles\<close> list.
\<close>

record message =
  content :: string
  embeds :: "(string \<times> event) list"
  allowedMentions :: "string list option"

record status =
  event_service :: bool

text \<open>
  What \<open>broadcaster.broadcast\<close> resolves to, at the type the source casts it to,
  \<open>(Message | null)[]\<close>, or a falsy value: each message is represented by its \<open>id\<close>.
\<close>

type_synonym response = "string option list option"

text \<open>
  The calls that write to the outside, in the order in which they are made:
  \<open>notification.create\<close> (type, data, timestamp, refreshTimestamp, whether it
  succeeded), \<open>notification.update\<close> to \<open>refreshed: true\<close> (id, whether it succeeded),
  \<open>broadcaster.broadcast\<close> (channel, message, prior message id, what it resolved to) and
  \<open>updateEventMessageId\<close> (guild id, type, channel, message id or undefined, whether it
  succeeded).
\<close>

datatype effect =
    DbCreate string event int int bool
  | DbUpdate nat bool
  | Broadcast string message "string option" response
  | WriteBack string string string "string option" bool

text \<open>The lines written to the logger, by the place that writes them.\<close>

datatype log =
    RefreshingEvents
  | ServiceNotAvailable
  | NoEventsFound
  | TooRecent string
  | FailedToCreate string
  | TooOld string
  | NotReady string
  | FailedToRefresh string
  | FoundGuilds nat string
  | CheckingGuild nat
  | Broadcasting string nat
  | NoChannelSet string
  | Broadcasted string nat

text \<open>The state outside the notifier: the table, the guild repository, and what was done.\<close>

record world =
  notifications :: "notification list"
  guilds :: "guild list"
  effects :: "effect list"
  logs :: "log list"

text \<open>
  What a tick cannot decide by itself: the translated title, the reading of
  \<open>Date.now()\<close> while the entry of a key is processed, whether the create and the
  update of that entry succeed, and what the broadcaster answers to a call and
  whether a write-back of a message id succeeds, each given everything done before it.
\<close>

record env =
  getTitle :: "string \<Rightarrow> event \<Rightarrow> string \<Rightarrow> string"
  Date_now :: "string \<Rightarrow> int"
  create_ok :: "string \<Rightarrow> bool"
  update_ok :: "string \<Rightarrow> bool"
  broadcast :: "effect list \<Rightarrow> string \<Rightarrow> message \<Rightarrow> string option \<Rightarrow> response"
  writeBack_ok :: "effect list \<Rightarrow> bool"

section \<open>Collaborators\<close>

text \<open>
  Modelled from the spec: \<open>duration\<close> of \<open>utils/Commons\<close> is not among the sources; the
  spec gives the grace period as 30 s, the staleness bound as 5 minutes and the refresh
  window as 1 hour, compared with millisecond times.
\<close>

definition duration_seconds :: "int \<Rightarrow> int" where
  "duration_seconds n = n * 1000"

definition duration_minutes :: "int \<Rightarrow> int" where
  "duration_minutes n = n * 60 * 1000"

definition duration_hours :: "int \<Rightarrow> int" where
  "duration_hours n = n * 60 * 60 * 1000"

definition info :: "log \<Rightarrow> world \<Rightarrow> world" where
  "info l w = w\<lparr>logs := logs w @ [l]\<rparr>"

definition perform :: "effect \<Rightarrow> world \<Rightarrow> world" where
  "perform e w = w\<lparr>effects := effects w @ [e]\<rparr>"

text \<open>\<open>notification.findFirst({where: {type, timestamp}})\<close>: the first matching row.\<close>

definition findFirst :: "string \<Rightarrow> int \<Rightarrow> notification list \<Rightarrow> notification option" where
  "findFirst k t ns = find (\<lambda>n. ntype n = k \<and> ntimestamp n = t) ns"

definition fresh_id :: "notification list \<Rightarrow> nat" where
  "fresh_id ns = Suc (fold max (map nid ns) 0)"

text \<open>
  Modelled from the spec: the table's schema is not among the sources; a created row
  has \<open>refreshed\<close> false by default and a new id. A create that throws leaves the table
  as it was; the source catches the error and logs it.
\<close>

definition notification_create :: "env \<Rightarrow> string \<Rightarrow> event \<Rightarrow> int \<Rightarrow> world \<Rightarrow> world" where
  "notification_create en key ev rt w =
     (if create_ok en key
      then perform (DbCreate key ev (timestamp ev) rt True)
             (w\<lparr>notifications := notifications w @
                  [\<lparr>nid = fresh_id (notifications w), ntype = key, ndata = ev,
                    ntimestamp = timestamp ev, refreshTimestamp = rt, refreshed = False\<rparr>]\<rparr>)
      else info (FailedToCreate key)
             (perform (DbCreate key ev (timestamp ev) rt False) w))"

definition mark_refreshed :: "nat \<Rightarrow> notification list \<Rightarrow> notification list" where
  "mark_refreshed i ns = map (\<lambda>n. if nid n = i then n\<lparr>refreshed := True\<rparr> else n) ns"

text \<open>\<open>notification.update({where: {id}, data: {refreshed: true}})\<close> inside its try block.\<close>

definition notification_update :: "env \<Rightarrow> string \<Rightarrow> nat \<Rightarrow> world \<Rightarrow> world" where
  "notification_update en key i w =
     (if update_ok en key
      then perform (DbUpdate i True) (w\<lparr>notifications := mark_refreshed i (notifications w)\<rparr>)
      else info (FailedToRefresh key) (perform (DbUpdate i False) w))"

text \<open>
  Modelled from the spec: \<open>repository.guild.getAllByEvent\<close> is not among the sources;
  it yields the subscribers that have at least one delivery setting for the type.
\<close>

definition getAllByEvent :: "string \<Rightarrow> guild list \<Rightarrow> guild list" where
  "getAllByEvent key gs = filter (\<lambda>g. \<exists>s \<in> set (events g). stype s = key) gs"

text \<open>
  Modelled from the spec: \<open>repository.guild.updateEventMessageId\<close> is not among the
  sources; its outcome is success or failure. On success it writes the identifier
  into the subscriber's delivery setting for this type and channel; on failure, which
  the repository only logs, the settings are left as they were. The first argument is
  the outcome.
\<close>

definition write_setting :: "string \<Rightarrow> string \<Rightarrow> string option \<Rightarrow> setting \<Rightarrow> setting" where
  "write_setting key c mid s =
     (if stype s = key \<and> channelId s = Some c then s\<lparr>messageId := mid\<rparr> else s)"

definition updateEventMessageId ::
  "bool \<Rightarrow> string \<Rightarrow> string \<Rightarrow> string \<Rightarrow> string option \<Rightarrow> guild list \<Rightarrow> guild list" where
  "updateEventMessageId ok g key c mid gs =
     (if ok
      then map (\<lambda>x. if guildId x = g
                    then x\<lparr>events := map (write_setting key c mid) (events x)\<rparr> else x) gs
      else gs)"

section \<open>The broadcast dispatch of \<open>refresh\<close>\<close>

text \<open>
  The body of \<open>for (let setting of settings)\<close>. The message object is declared once
  per guild, outside this loop, and the body assigns to its fields, so the message is
  part of what an iteration hands to the next. A nullable string is falsy when it is
  null, undefined or empty.
\<close>

definition mention :: "setting \<Rightarrow> message \<Rightarrow> message" where
  "mention s m =
     (case roleId s of
        None \<Rightarrow> m
      | Some r \<Rightarrow>
          if r \<noteq> []
          then m\<lparr>content := content m @ '' - <@&'' @ r @ ''>'', allowedMentions := Some [r]\<rparr>
          else m)"

definition write_back ::
  "env \<Rightarrow> string \<Rightarrow> guild \<Rightarrow> string \<Rightarrow> response \<Rightarrow> world \<Rightarrow> world" where
  "write_back en key g c r w =
     (case r of
        None \<Rightarrow> w
      | Some ms \<Rightarrow>
          (case ms of
             [] \<Rightarrow> w
           | m0 # _ \<Rightarrow>
               (let ok = writeBack_ok en (effects w)
                in perform (WriteBack (guildId g) key c m0 ok)
                     (w\<lparr>guilds :=
                          updateEventMessageId ok (guildId g) key c m0 (guilds w)\<rparr>))))"

definition deliver :: "env \<Rightarrow> string \<Rightarrow> guild \<Rightarrow> setting \<Rightarrow> message \<times> world \<Rightarrow> message \<times> world" where
  "deliver en key g s mw =
     (let w1 = info (Broadcasting key (gid g)) (snd mw);
          m1 = mention s (fst mw)
      in case channelId s of
           None \<Rightarrow> (m1, info (NoChannelSet key) w1)
         | Some c \<Rightarrow>
             if c = [] then (m1, info (NoChannelSet key) w1)
             else
               (let r = broadcast en (effects w1) c m1 (messageId s);
                    w2 = perform (Broadcast c m1 (messageId s) r) w1
                in (m1, write_back en key g c r w2)))"

fun settings_loop ::
  "env \<Rightarrow> string \<Rightarrow> guild \<Rightarrow> setting list \<Rightarrow> message \<times> world \<Rightarrow> message \<times> world" where
  "settings_loop en key g [] mw = mw"
| "settings_loop en key g (s # ss) mw = settings_loop en key g ss (deliver en key g s mw)"

text \<open>The body of \<open>for (const guild of guilds)\<close>.\<close>

definition guild_step :: "env \<Rightarrow> string \<Rightarrow> event \<Rightarrow> guild \<Rightarrow> world \<Rightarrow> world" where
  "guild_step en key ev g w =
     (let w1 = info (CheckingGuild (gid g)) w;
          m = \<lparr>content = getTitle en key ev (guild_locale g), embeds = [(key, ev)],
               allowedMentions = None\<rparr>;
          settings = filter (\<lambda>s. stype s = key) (events g)
      in if settings = [] then w1 else snd (settings_loop en key g settings (m, w1)))"

fun guilds_loop :: "env \<Rightarrow> string \<Rightarrow> event \<Rightarrow> guild list \<Rightarrow> world \<Rightarrow> world" where
  "guilds_loop en key ev [] w = w"
| "guilds_loop en key ev (g # gs) w = guilds_loop en key ev gs (guild_step en key ev g w)"

text \<open>Lines 132 to 186: from \<open>getAllByEvent\<close> to the closing log line.\<close>

definition dispatch :: "env \<Rightarrow> string \<Rightarrow> event \<Rightarrow> world \<Rightarrow> world" where
  "dispatch en key ev w =
     (let gs = getAllByEvent key (guilds w);
          w1 = info (FoundGuilds (length gs) key) w;
          w2 = guilds_loop en key ev gs w1
      in info (Broadcasted key (length gs)) w2)"

section \<open>The lifecycle tracker of \<open>refresh\<close>\<close>

text \<open>
  The body of \<open>for (let [key, event] of Object.entries(events))\<close>. \<open>helltide\<close> is the
  value of \<open>Events.Helltide\<close>, whose declaration is not among the sources. A
  \<open>continue\<close> ends the body with the world as it is at that point.
\<close>

definition process_entry :: "string \<Rightarrow> env \<Rightarrow> string \<Rightarrow> event \<Rightarrow> world \<Rightarrow> world" where
  "process_entry helltide en key ev w =
     (case findFirst key (timestamp ev) (notifications w) of
        None \<Rightarrow>
          (let now = Date_now en key;
               eventDate = timestamp ev * 1000;
               delayDate = timestamp ev * 1000 + duration_seconds 30
           in if key = helltide \<and> now < delayDate then info (TooRecent key) w
              else
                (let rt = (if key = helltide then refresh ev else 0);
                     w1 = notification_create en key ev rt w
                 in if now > eventDate + duration_minutes 5 then info (TooOld key) w1
                    else dispatch en key ev w1))
      | Some exist \<Rightarrow>
          if refreshTimestamp exist > 0 \<and> \<not> refreshed exist then
            (if refreshTimestamp exist \<noteq> 0 \<and> refreshTimestamp exist > 0 \<and> \<not> refreshed exist
             then
               (let now = Date_now en key;
                    startDate = ntimestamp exist * 1000;
                    refreshDate = refreshTimestamp exist * 1000;
                    endDate = startDate + duration_hours 1
                in if \<not> (now \<ge> startDate \<and> now \<le> endDate) \<or> now < refreshDate
                   then info (NotReady key) w
                   else dispatch en key ev (notification_update en key (nid exist) w))
             else dispatch en key ev w)
          else w)"

fun entries_loop :: "string \<Rightarrow> env \<Rightarrow> (string \<times> event) list \<Rightarrow> world \<Rightarrow> world" where
  "entries_loop helltide en [] w = w"
| "entries_loop helltide en (ke # rest) w =
     entries_loop helltide en rest (process_entry helltide en (fst ke) (snd ke) w)"

text \<open>
  \<open>refresh\<close>, one tick: the two fetches have resolved to \<open>st\<close> and \<open>evs\<close>, absent being
  \<open>None\<close>; the events object is the list of its entries.
\<close>

definition refresh_tick ::
  "string \<Rightarrow> env \<Rightarrow> status option \<Rightarrow> (string \<times> event) list option \<Rightarrow> world \<Rightarrow> world" where
  "refresh_tick helltide en st evs w =
     (let w0 = info RefreshingEvents w
      in case st of
           None \<Rightarrow> info ServiceNotAvailable w0
         | Some s \<Rightarrow>
             if \<not> event_service s then info ServiceNotAvailable w0
             else
               (case evs of
                  None \<Rightarrow> info NoEventsFound w0
                | Some es \<Rightarrow> entries_loop helltide en es w0))"

text \<open>A run of the cron job: one tick after the other, each with its own fetches.\<close>

type_synonym tick = "env \<times> status option \<times> (string \<times> event) list option"

fun run :: "string \<Rightarrow> tick list \<Rightarrow> world \<Rightarrow> world" where
  "run helltide [] w = w"
| "run helltide (t # ts) w =
     run helltide ts (refresh_tick helltide (fst t) (fst (snd t)) (snd (snd t)) w)"

text \<open>What was done for one occurrence, read off the effects.\<close>

fun is_create_for :: "string \<Rightarrow> int \<Rightarrow> effect \<Rightarrow> bool" where
  "is_create_for k t (DbCreate k' e t' r ok) = (k' = k \<and> t' = t)"
| "is_create_for k t _ = False"

fun is_broadcast_for :: "string \<Rightarrow> int \<Rightarrow> effect \<Rightarrow> bool" where
  "is_broadcast_for k t (Broadcast c m mid r) =
     (\<exists>x \<in> set (embeds m). fst x = k \<and> timestamp (snd x) = t)"
| "is_broadcast_for k t _ = False"

fun is_broadcast :: "effect \<Rightarrow> bool" where
  "is_broadcast (Broadcast c m mid r) = True"
| "is_broadcast _ = False"

text \<open>
  An effect that the dispatch for the entry \<open>(key, ev)\<close> can add: a broadcast whose
  message carries the embed of that entry, or a write-back.
\<close>

fun from_dispatch :: "string \<Rightarrow> event \<Rightarrow> effect \<Rightarrow> bool" where
  "from_dispatch key ev (Broadcast c m mid r) = (embeds m = [(key, ev)])"
| "from_dispatch key ev (WriteBack g k c mid ok) = True"
| "from_dispatch key ev _ = False"

text \<open>
  The occurrence is fully handled: its record exists and has no refresh phase left.
\<close>

definition handled :: "string \<Rightarrow> int \<Rightarrow> notification list \<Rightarrow> bool" where
  "handled k t ns =
     (case findFirst k t ns of
        None \<Rightarrow> False
      | Some r \<Rightarrow> \<not> (refreshTimestamp r > 0 \<and> \<not> refreshed r))"

section \<open>Concrete inputs\<close>

text \<open>
  A Helltide entry that started at second 1000 and refreshes at second 1600, a guild
  with two delivery settings for it, each with its channel and role, and an
  environment with a fixed clock, a fixed outcome of the table writes and a fixed
  answer of the broadcaster.
\<close>

definition ev0 :: event where
  "ev0 = \<lparr>timestamp = 1000, refresh = 1600, payload = ''p''\<rparr>"

definition g0 :: guild where
  "g0 = \<lparr>gid = 1, guildId = ''G'', guild_locale = ''en'',
          events = [\<lparr>stype = ''helltide'', channelId = Some ''c1'', roleId = Some ''r1'',
                      messageId = None\<rparr>,
                    \<lparr>stype = ''helltide'', channelId = Some ''c2'', roleId = Some ''r2'',
                      messageId = None\<rparr>]\<rparr>"

definition w0 :: world where
  "w0 = \<lparr>notifications = [], guilds = [g0], effects = [], logs = []\<rparr>"

definition env_at :: "int \<Rightarrow> bool \<Rightarrow> bool \<Rightarrow> response \<Rightarrow> env" where
  "env_at now cok uok r =
     \<lparr>getTitle = (\<lambda>k e l. ''T''), Date_now = (\<lambda>k. now), create_ok = (\<lambda>k. cok),
      update_ok = (\<lambda>k. uok), broadcast = (\<lambda>h c m mid. r), writeBack_ok = (\<lambda>h. True)\<rparr>"

text \<open>The table once the record of that entry exists, its refresh still to come.\<close>

definition n0 :: notification where
  "n0 = \<lparr>nid = 1, ntype = ''helltide'', ndata = ev0, ntimestamp = 1000,
          refreshTimestamp = 1600, refreshed = False\<rparr>"

definition w1 :: world where
  "w1 = \<lparr>notifications = [n0], guilds = [g0], effects = [], logs = []\<rparr>"

text \<open>The environment 40 s after the start of the entry, with every write-back failing.\<close>

definition env_no_write_back :: "response \<Rightarrow> env" where
  "env_no_write_back r = (env_at 1040000 True True r)\<lparr>writeBack_ok := (\<lambda>h. False)\<rparr>"

lemmas eval_defs = refresh_tick_def process_entry_def findFirst_def dispatch_def guild_step_def
  deliver_def mention_def write_back_def updateEventMessageId_def write_setting_def
  getAllByEvent_def notification_create_def notification_update_def mark_refreshed_def
  fresh_id_def info_def perform_def duration_seconds_def duration_minutes_def
  duration_hours_def handled_def Let_def w0_def w1_def n0_def ev0_def g0_def env_at_def
  env_no_write_back_def

section \<open>Helper lemmas: what the dispatch and one entry touch\<close>

lemma info_simps [simp]:
  "notifications (info l w) = notifications w"
  "guilds (info l w) = guilds w"
  "effects (info l w) = effects w"
  "logs (info l w) = logs w @ [l]"
  by (simp_all add: info_def)

lemma perform_simps [simp]:
  "notifications (perform e w) = notifications w"
  "guilds (perform e w) = guilds w"
  "effects (perform e w) = effects w @ [e]"
  "logs (perform e w) = logs w"
  by (simp_all add: perform_def)

lemma embeds_mention [simp]: "embeds (mention s m) = embeds m"
  by (simp add: mention_def split: option.splits)

lemma write_back_notifications [simp]:
  "notifications (write_back en key g c r w) = notifications w"
  by (simp add: write_back_def Let_def split: option.splits list.splits)

lemma write_back_effects:
  "\<exists>xs. effects (write_back en key g c r w) = effects w @ xs \<and> (\<forall>e \<in> set xs. from_dispatch k' ev' e)
     \<and> (\<forall>e \<in> set xs. \<not> is_broadcast e)"
  by (auto simp add: write_back_def Let_def split: option.splits list.splits)

lemma deliver_fst [simp]: "fst (deliver en key g s mw) = mention s (fst mw)"
  by (simp add: deliver_def Let_def split: option.splits)

lemma deliver_notifications [simp]:
  "notifications (snd (deliver en key g s mw)) = notifications (snd mw)"
  by (simp add: deliver_def Let_def split: option.splits)

lemma deliver_effects:
  assumes "embeds (fst mw) = [(key, ev)]"
  shows "\<exists>xs. effects (snd (deliver en key g s mw)) = effects (snd mw) @ xs
            \<and> (\<forall>e \<in> set xs. from_dispatch key ev e)"
proof (cases "channelId s")
  case None
  then show ?thesis by (simp add: deliver_def Let_def)
next
  case (Some c)
  show ?thesis
  proof (cases "c = []")
    case True
    with Some show ?thesis by (simp add: deliver_def Let_def)
  next
    case False
    let ?w1 = "info (Broadcasting key (gid g)) (snd mw)"
    let ?m1 = "mention s (fst mw)"
    let ?r = "broadcast en (effects ?w1) c ?m1 (messageId s)"
    let ?w2 = "perform (Broadcast c ?m1 (messageId s) ?r) ?w1"
    obtain xs where xs: "effects (write_back en key g c ?r ?w2) = effects ?w2 @ xs"
      "\<forall>e \<in> set xs. from_dispatch key ev e"
      using write_back_effects [of en key g c ?r ?w2 key ev] by blast
    have "effects (snd (deliver en key g s mw)) = effects (write_back en key g c ?r ?w2)"
      using Some False by (simp add: deliver_def Let_def)
    also have "\<dots> = effects (snd mw) @ (Broadcast c ?m1 (messageId s) ?r # xs)"
      using xs(1) by simp
    finally show ?thesis using xs(2) assms by fastforce
  qed
qed

lemma settings_loop_notifications [simp]:
  "notifications (snd (settings_loop en key g ss mw)) = notifications (snd mw)"
  by (induction ss arbitrary: mw) simp_all

lemma settings_loop_effects:
  "embeds (fst mw) = [(key, ev)] \<Longrightarrow>
   \<exists>xs. effects (snd (settings_loop en key g ss mw)) = effects (snd mw) @ xs
      \<and> (\<forall>e \<in> set xs. from_dispatch key ev e)"
proof (induction ss arbitrary: mw)
  case Nil
  then show ?case by simp
next
  case (Cons s ss)
  let ?mw = "deliver en key g s mw"
  obtain xs where xs: "effects (snd ?mw) = effects (snd mw) @ xs"
    "\<forall>e \<in> set xs. from_dispatch key ev e"
    using deliver_effects [OF Cons.prems] by blast
  have "embeds (fst ?mw) = [(key, ev)]" using Cons.prems by simp
  from Cons.IH [OF this] obtain ys where ys:
    "effects (snd (settings_loop en key g ss ?mw)) = effects (snd ?mw) @ ys"
    "\<forall>e \<in> set ys. from_dispatch key ev e" by blast
  have "effects (snd (settings_loop en key g (s # ss) mw)) = effects (snd mw) @ (xs @ ys)"
    using xs(1) ys(1) by simp
  moreover have "\<forall>e \<in> set (xs @ ys). from_dispatch key ev e" using xs(2) ys(2) by auto
  ultimately show ?case by blast
qed

lemma guild_step_notifications [simp]:
  "notifications (guild_step en key ev g w) = notifications w"
  by (simp add: guild_step_def Let_def)

lemma guild_step_effects:
  "\<exists>xs. effects (guild_step en key ev g w) = effects w @ xs
      \<and> (\<forall>e \<in> set xs. from_dispatch key ev e)"
proof -
  let ?m = "\<lparr>content = getTitle en key ev (guild_locale g), embeds = [(key, ev)],
             allowedMentions = None\<rparr>"
  let ?w1 = "info (CheckingGuild (gid g)) w"
  have "embeds (fst (?m, ?w1)) = [(key, ev)]" by simp
  from settings_loop_effects [OF this, of en g "filter (\<lambda>s. stype s = key) (events g)"]
  show ?thesis by (auto simp add: guild_step_def Let_def)
qed

lemma guilds_loop_notifications [simp]:
  "notifications (guilds_loop en key ev gs w) = notifications w"
  by (induction gs arbitrary: w) simp_all

lemma guilds_loop_effects:
  "\<exists>xs. effects (guilds_loop en key ev gs w) = effects w @ xs
      \<and> (\<forall>e \<in> set xs. from_dispatch key ev e)"
proof (induction gs arbitrary: w)
  case Nil
  then show ?case by simp
next
  case (Cons g gs)
  obtain xs where xs: "effects (guild_step en key ev g w) = effects w @ xs"
    "\<forall>e \<in> set xs. from_dispatch key ev e"
    using guild_step_effects by blast
  obtain ys where ys:
    "effects (guilds_loop en key ev gs (guild_step en key ev g w))
       = effects (guild_step en key ev g w) @ ys"
    "\<forall>e \<in> set ys. from_dispatch key ev e"
    using Cons.IH by blast
  have "effects (guilds_loop en key ev (g # gs) w) = effects w @ (xs @ ys)"
    using xs(1) ys(1) by simp
  moreover have "\<forall>e \<in> set (xs @ ys). from_dispatch key ev e" using xs(2) ys(2) by auto
  ultimately show ?case by blast
qed

lemma dispatch_notifications [simp]:
  "notifications (dispatch en key ev w) = notifications w"
  by (simp add: dispatch_def Let_def)

lemma dispatch_effects:
  "\<exists>xs. effects (dispatch en key ev w) = effects w @ xs
      \<and> (\<forall>e \<in> set xs. from_dispatch key ev e)"
  using guilds_loop_effects [of en key ev "getAllByEvent key (guilds w)"
      "info (FoundGuilds (length (getAllByEvent key (guilds w))) key) w"]
  by (simp add: dispatch_def Let_def)

lemma dispatch_filter:
  assumes "\<And>e. from_dispatch key ev e \<Longrightarrow> \<not> P e"
  shows "filter P (effects (dispatch en key ev w)) = filter P (effects w)"
proof -
  obtain xs where xs: "effects (dispatch en key ev w) = effects w @ xs"
    "\<forall>e \<in> set xs. from_dispatch key ev e"
    using dispatch_effects by blast
  have "filter P xs = []" using xs(2) assms by (auto simp add: filter_empty_conv)
  then show ?thesis using xs(1) by simp
qed

lemma from_dispatch_not_create: "from_dispatch key ev e \<Longrightarrow> \<not> is_create_for k t e"
  by (cases e) simp_all

lemma from_dispatch_other_occurrence:
  "from_dispatch key ev e \<Longrightarrow> \<not> (key = k \<and> timestamp ev = t) \<Longrightarrow> \<not> is_broadcast_for k t e"
  by (cases e) auto

lemma notification_create_simps [simp]:
  "effects (notification_create en key ev rt w)
     = effects w @ [DbCreate key ev (timestamp ev) rt (create_ok en key)]"
  "guilds (notification_create en key ev rt w) = guilds w"
  by (simp_all add: notification_create_def)

lemma notification_create_notifications:
  "notifications (notification_create en key ev rt w) =
     (if create_ok en key
      then notifications w @
             [\<lparr>nid = fresh_id (notifications w), ntype = key, ndata = ev,
               ntimestamp = timestamp ev, refreshTimestamp = rt, refreshed = False\<rparr>]
      else notifications w)"
  by (simp add: notification_create_def)

lemma notification_update_simps [simp]:
  "effects (notification_update en key i w) = effects w @ [DbUpdate i (update_ok en key)]"
  "guilds (notification_update en key i w) = guilds w"
  "notifications (notification_update en key i w) =
     (if update_ok en key then mark_refreshed i (notifications w) else notifications w)"
  by (simp_all add: notification_update_def)

lemma findFirst_append:
  "findFirst k t (ns @ [n]) =
     (case findFirst k t ns of
        None \<Rightarrow> if ntype n = k \<and> ntimestamp n = t then Some n else None
      | Some r \<Rightarrow> Some r)"
  by (induction ns) (simp_all add: findFirst_def)

lemma findFirst_mark:
  "findFirst k t (mark_refreshed i ns) =
     map_option (\<lambda>n. if nid n = i then n\<lparr>refreshed := True\<rparr> else n) (findFirst k t ns)"
  by (induction ns) (auto simp add: findFirst_def mark_refreshed_def)

lemma findFirst_Some: "findFirst k t ns = Some r \<Longrightarrow> ntype r = k \<and> ntimestamp r = t \<and> r \<in> set ns"
  unfolding findFirst_def by (induction ns) (auto split: if_splits)

text \<open>Every change of the table by one entry is an appended row for a missing occurrence or a marking.\<close>

lemma process_entry_table:
  assumes app: "\<And>ns n. P ns \<Longrightarrow> findFirst (ntype n) (ntimestamp n) ns = None \<Longrightarrow> P (ns @ [n])"
    and mark: "\<And>ns i. P ns \<Longrightarrow> P (mark_refreshed i ns)"
    and P: "P (notifications w)"
  shows "P (notifications (process_entry h en key ev w))"
proof (cases "findFirst key (timestamp ev) (notifications w)")
  case None
  have "P (notifications (notification_create en key ev rt w))" for rt
    using app [OF P, of "\<lparr>nid = fresh_id (notifications w), ntype = key, ndata = ev,
               ntimestamp = timestamp ev, refreshTimestamp = rt, refreshed = False\<rparr>"] None P
    by (simp add: notification_create_notifications)
  then show ?thesis using None P by (simp add: process_entry_def Let_def)
next
  case (Some r)
  have "P (notifications (notification_update en key i w))" for i
    using mark [OF P] P by simp
  then show ?thesis using Some P by (simp add: process_entry_def Let_def)
qed

lemma entries_loop_table:
  assumes app: "\<And>ns n. P ns \<Longrightarrow> findFirst (ntype n) (ntimestamp n) ns = None \<Longrightarrow> P (ns @ [n])"
    and mark: "\<And>ns i. P ns \<Longrightarrow> P (mark_refreshed i ns)"
  shows "P (notifications w) \<Longrightarrow> P (notifications (entries_loop h en es w))"
proof (induction es arbitrary: w)
  case Nil
  then show ?case by simp
next
  case (Cons ke es)
  have "P (notifications (process_entry h en (fst ke) (snd ke) w))"
    using process_entry_table [of P, OF app mark Cons.prems] .
  from Cons.IH [OF this] show ?case by simp
qed

lemma refresh_tick_table:
  assumes app: "\<And>ns n. P ns \<Longrightarrow> findFirst (ntype n) (ntimestamp n) ns = None \<Longrightarrow> P (ns @ [n])"
    and mark: "\<And>ns i. P ns \<Longrightarrow> P (mark_refreshed i ns)"
    and P: "P (notifications w)"
  shows "P (notifications (refresh_tick h en st evs w))"
proof -
  have "P (notifications (entries_loop h en es (info RefreshingEvents w)))" for es
    using entries_loop_table [of P, OF app mark] P by simp
  then show ?thesis using P
    by (simp add: refresh_tick_def Let_def split: option.splits)
qed

lemma run_table:
  assumes app: "\<And>ns n. P ns \<Longrightarrow> findFirst (ntype n) (ntimestamp n) ns = None \<Longrightarrow> P (ns @ [n])"
    and mark: "\<And>ns i. P ns \<Longrightarrow> P (mark_refreshed i ns)"
  shows "P (notifications w) \<Longrightarrow> P (notifications (run h ts w))"
proof (induction ts arbitrary: w)
  case Nil
  then show ?case by simp
next
  case (Cons t ts)
  have "P (notifications (refresh_tick h (fst t) (fst (snd t)) (snd (snd t)) w))"
    using refresh_tick_table [of P, OF app mark Cons.prems] .
  from Cons.IH [OF this] show ?case by simp
qed

lemma exists_append: "findFirst k t ns \<noteq> None \<Longrightarrow> findFirst k t (ns @ [n]) \<noteq> None"
  by (auto simp add: findFirst_append)

lemma exists_mark: "findFirst k t ns \<noteq> None \<Longrightarrow> findFirst k t (mark_refreshed i ns) \<noteq> None"
  by (simp add: findFirst_mark)

lemma handled_append: "handled k t ns \<Longrightarrow> handled k t (ns @ [n])"
  by (auto simp add: handled_def findFirst_append split: option.splits)

lemma handled_mark: "handled k t ns \<Longrightarrow> handled k t (mark_refreshed i ns)"
  by (auto simp add: handled_def findFirst_mark split: option.splits)

lemma process_entry_handled:
  assumes "handled key (timestamp ev) (notifications w)"
  shows "process_entry h en key ev w = w"
  using assms by (auto simp add: handled_def process_entry_def split: option.splits)

lemma process_entry_cases:
  obtains
    (idle) "process_entry h en key ev w = w"
  | (logged) l where "process_entry h en key ev w = info l w"
  | (stale) rt where "findFirst key (timestamp ev) (notifications w) = None"
      "process_entry h en key ev w = info (TooOld key) (notification_create en key ev rt w)"
  | (notify) rt where "findFirst key (timestamp ev) (notifications w) = None"
      "process_entry h en key ev w = dispatch en key ev (notification_create en key ev rt w)"
  | (refresh) r where "findFirst key (timestamp ev) (notifications w) = Some r"
      "process_entry h en key ev w = dispatch en key ev (notification_update en key (nid r) w)"
proof (cases "findFirst key (timestamp ev) (notifications w)")
  case None
  show ?thesis
  proof (cases "key = h \<and> Date_now en key < timestamp ev * 1000 + duration_seconds 30")
    case True
    with None have "process_entry h en key ev w = info (TooRecent key) w"
      by (auto simp add: process_entry_def Let_def)
    then show ?thesis by (rule logged)
  next
    case False
    let ?rt = "if key = h then refresh ev else 0"
    show ?thesis
    proof (cases "Date_now en key > timestamp ev * 1000 + duration_minutes 5")
      case True
      with None False have
        "process_entry h en key ev w = info (TooOld key) (notification_create en key ev ?rt w)"
        by (auto simp add: process_entry_def Let_def)
      with None show ?thesis by (rule stale)
    next
      case old: False
      with None False have
        "process_entry h en key ev w = dispatch en key ev (notification_create en key ev ?rt w)"
        by (auto simp add: process_entry_def Let_def)
      with None show ?thesis by (rule notify)
    qed
  qed
next
  case (Some r)
  show ?thesis
  proof (cases "refreshTimestamp r > 0 \<and> \<not> refreshed r")
    case False
    with Some have "process_entry h en key ev w = w"
      by (auto simp add: process_entry_def)
    then show ?thesis by (rule idle)
  next
    case True
    show ?thesis
    proof (cases "\<not> (Date_now en key \<ge> ntimestamp r * 1000
                     \<and> Date_now en key \<le> ntimestamp r * 1000 + duration_hours 1)
                 \<or> Date_now en key < refreshTimestamp r * 1000")
      case wait: True
      with Some True have "process_entry h en key ev w = info (NotReady key) w"
        by (auto simp add: process_entry_def Let_def)
      then show ?thesis by (rule logged)
    next
      case fire: False
      with Some True have
        "process_entry h en key ev w = dispatch en key ev (notification_update en key (nid r) w)"
        by (auto simp add: process_entry_def Let_def)
      with Some show ?thesis by (rule refresh)
    qed
  qed
qed

lemma process_entry_creates:
  assumes "findFirst k t (notifications w) \<noteq> None"
  shows "filter (is_create_for k t) (effects (process_entry h en key ev w))
           = filter (is_create_for k t) (effects w)"
proof -
  have d: "filter (is_create_for k t) (effects (dispatch en key ev w'))
             = filter (is_create_for k t) (effects w')" for w'
    by (rule dispatch_filter) (rule from_dispatch_not_create)
  show ?thesis
  proof (cases rule: process_entry_cases [of h en key ev w])
    case idle
    then show ?thesis by simp
  next
    case (logged l)
    then show ?thesis by simp
  next
    case (stale rt)
    with assms have "\<not> (key = k \<and> timestamp ev = t)" by auto
    then show ?thesis using stale(2) by auto
  next
    case (notify rt)
    with assms have "\<not> (key = k \<and> timestamp ev = t)" by auto
    then show ?thesis using notify(2) by (auto simp add: d)
  next
    case (refresh r)
    then show ?thesis by (simp add: d)
  qed
qed

lemma process_entry_broadcasts:
  assumes "handled k t (notifications w)"
  shows "filter (is_broadcast_for k t) (effects (process_entry h en key ev w))
           = filter (is_broadcast_for k t) (effects w)"
proof (cases "key = k \<and> timestamp ev = t")
  case True
  then show ?thesis using assms process_entry_handled [of key ev w h en] by simp
next
  case False
  have d: "filter (is_broadcast_for k t) (effects (dispatch en key ev w'))
             = filter (is_broadcast_for k t) (effects w')" for w'
    by (rule dispatch_filter) (use False in \<open>auto dest: from_dispatch_other_occurrence\<close>)
  show ?thesis
    by (cases rule: process_entry_cases [of h en key ev w]) (simp_all add: d)
qed

lemma entries_loop_creates:
  "findFirst k t (notifications w) \<noteq> None \<Longrightarrow>
   filter (is_create_for k t) (effects (entries_loop h en es w))
     = filter (is_create_for k t) (effects w)"
proof (induction es arbitrary: w)
  case Nil
  then show ?case by simp
next
  case (Cons ke es)
  let ?w = "process_entry h en (fst ke) (snd ke) w"
  have "findFirst k t (notifications ?w) \<noteq> None"
    using process_entry_table [of "\<lambda>ns. findFirst k t ns \<noteq> None", OF exists_append exists_mark Cons.prems] .
  from Cons.IH [OF this] show ?case
    using process_entry_creates [OF Cons.prems] by simp
qed

lemma entries_loop_broadcasts:
  "handled k t (notifications w) \<Longrightarrow>
   filter (is_broadcast_for k t) (effects (entries_loop h en es w))
     = filter (is_broadcast_for k t) (effects w)"
proof (induction es arbitrary: w)
  case Nil
  then show ?case by simp
next
  case (Cons ke es)
  let ?w = "process_entry h en (fst ke) (snd ke) w"
  have "handled k t (notifications ?w)"
    using process_entry_table [of "handled k t", OF handled_append handled_mark Cons.prems] .
  from Cons.IH [OF this] show ?case
    using process_entry_broadcasts [OF Cons.prems] by simp
qed

lemma refresh_tick_creates:
  assumes "findFirst k t (notifications w) \<noteq> None"
  shows "filter (is_create_for k t) (effects (refresh_tick h en st evs w))
           = filter (is_create_for k t) (effects w)"
  using entries_loop_creates [of k t "info RefreshingEvents w"] assms
  by (simp add: refresh_tick_def Let_def split: option.splits)

lemma refresh_tick_broadcasts:
  assumes "handled k t (notifications w)"
  shows "filter (is_broadcast_for k t) (effects (refresh_tick h en st evs w))
           = filter (is_broadcast_for k t) (effects w)"
  using entries_loop_broadcasts [of k t "info RefreshingEvents w"] assms
  by (simp add: refresh_tick_def Let_def split: option.splits)

lemma run_creates:
  "findFirst k t (notifications w) \<noteq> None \<Longrightarrow>
   filter (is_create_for k t) (effects (run h ts w)) = filter (is_create_for k t) (effects w)"
proof (induction ts arbitrary: w)
  case Nil
  then show ?case by simp
next
  case (Cons x ts)
  let ?w = "refresh_tick h (fst x) (fst (snd x)) (snd (snd x)) w"
  have "findFirst k t (notifications ?w) \<noteq> None"
    using refresh_tick_table [of "\<lambda>ns. findFirst k t ns \<noteq> None", OF exists_append exists_mark Cons.prems] .
  from Cons.IH [OF this] show ?case
    using refresh_tick_creates [OF Cons.prems] by simp
qed

lemma run_broadcasts:
  "handled k t (notifications w) \<Longrightarrow>
   filter (is_broadcast_for k t) (effects (run h ts w))
     = filter (is_broadcast_for k t) (effects w)"
proof (induction ts arbitrary: w)
  case Nil
  then show ?case by simp
next
  case (Cons x ts)
  let ?w = "refresh_tick h (fst x) (fst (snd x)) (snd (snd x)) w"
  have "handled k t (notifications ?w)"
    using refresh_tick_table [of "handled k t", OF handled_append handled_mark Cons.prems] .
  from Cons.IH [OF this] show ?case
    using refresh_tick_broadcasts [OF Cons.prems] by simp
qed

lemma run_handled: "handled k t (notifications w) \<Longrightarrow> handled k t (notifications (run h ts w))"
  using run_table [of "handled k t", OF handled_append handled_mark] .

lemma run_exists:
  "findFirst k t (notifications w) \<noteq> None \<Longrightarrow> findFirst k t (notifications (run h ts w)) \<noteq> None"
  using run_table [of "\<lambda>ns. findFirst k t ns \<noteq> None", OF exists_append exists_mark] .

lemma run_refreshed:
  assumes "\<exists>r. findFirst k t (notifications w) = Some r \<and> refreshed r"
  shows "\<exists>r. findFirst k t (notifications (run h ts w)) = Some r \<and> refreshed r"
proof -
  have app: "\<And>ns n. \<exists>r. findFirst k t ns = Some r \<and> refreshed r \<Longrightarrow>
      findFirst (ntype n) (ntimestamp n) ns = None \<Longrightarrow>
      \<exists>r. findFirst k t (ns @ [n]) = Some r \<and> refreshed r"
    by (auto simp add: findFirst_append)
  have mark: "\<exists>r. findFirst k t (mark_refreshed i ns) = Some r \<and> refreshed r"
    if "\<exists>r. findFirst k t ns = Some r \<and> refreshed r" for ns i
  proof -
    from that obtain r where r: "findFirst k t ns = Some r" "refreshed r" by blast
    have "findFirst k t (mark_refreshed i ns)
            = Some (if nid r = i then r\<lparr>refreshed := True\<rparr> else r)"
      using r(1) by (simp add: findFirst_mark)
    moreover have "refreshed (if nid r = i then r\<lparr>refreshed := True\<rparr> else r)"
      using r(2) by simp
    ultimately show ?thesis by blast
  qed
  show ?thesis
    using run_table [of "\<lambda>ns. \<exists>r. findFirst k t ns = Some r \<and> refreshed r", OF app mark assms] .
qed

lemma refreshed_handled:
  "\<exists>r. findFirst k t ns = Some r \<and> refreshed r \<Longrightarrow> handled k t ns"
  by (auto simp add: handled_def)

lemma refresh_branch:
  assumes found: "findFirst k (timestamp ev) (notifications w) = Some r"
    and pending: "refreshTimestamp r > 0" "\<not> refreshed r"
  shows "process_entry h en k ev w =
           (if ntimestamp r * 1000 \<le> Date_now en k
               \<and> Date_now en k \<le> ntimestamp r * 1000 + 3600 * 1000
               \<and> refreshTimestamp r * 1000 \<le> Date_now en k
            then dispatch en k ev (notification_update en k (nid r) w)
            else info (NotReady k) w)"
  using assms by (auto simp add: process_entry_def Let_def duration_hours_def)

lemma after_update:
  assumes found: "findFirst k t (notifications w) = Some r"
    and ok: "update_ok en k"
  shows "findFirst k t (notifications (dispatch en k ev (notification_update en k (nid r) w)))
           = Some (r\<lparr>refreshed := True\<rparr>)"
  using assms by (simp add: findFirst_mark)

lemma dispatch_after_update_effects:
  "\<exists>xs. effects (dispatch en k ev (notification_update en k i w))
          = effects w @ DbUpdate i (update_ok en k) # xs
      \<and> (\<forall>e \<in> set xs. from_dispatch k ev e)"
  using dispatch_effects [of en k ev "notification_update en k i w"] by auto

lemma write_back_logs [simp]: "logs (write_back en key g c r w) = logs w"
  by (simp add: write_back_def Let_def split: option.splits list.splits)

lemma deliver_logs: "\<exists>ls. logs (snd (deliver en key g s mw)) = logs (snd mw) @ ls"
  by (simp add: deliver_def Let_def split: option.splits)

lemma settings_loop_logs:
  "\<exists>ls. logs (snd (settings_loop en key g ss mw)) = logs (snd mw) @ ls"
proof (induction ss arbitrary: mw)
  case Nil
  then show ?case by simp
next
  case (Cons s ss)
  obtain xs where xs: "logs (snd (deliver en key g s mw)) = logs (snd mw) @ xs"
    using deliver_logs by blast
  obtain ys where ys: "logs (snd (settings_loop en key g ss (deliver en key g s mw)))
      = logs (snd (deliver en key g s mw)) @ ys"
    using Cons.IH by blast
  have "logs (snd (settings_loop en key g (s # ss) mw)) = logs (snd mw) @ (xs @ ys)"
    using xs ys by simp
  then show ?case by blast
qed

lemma guild_step_logs: "\<exists>ls. logs (guild_step en key ev g w) = logs w @ ls"
proof -
  obtain ls where "logs (snd (settings_loop en key g (filter (\<lambda>s. stype s = key) (events g))
      (\<lparr>content = getTitle en key ev (guild_locale g), embeds = [(key, ev)],
         allowedMentions = None\<rparr>, info (CheckingGuild (gid g)) w)))
     = logs (snd (\<lparr>content = getTitle en key ev (guild_locale g), embeds = [(key, ev)],
         allowedMentions = None\<rparr>, info (CheckingGuild (gid g)) w)) @ ls"
    using settings_loop_logs by blast
  then show ?thesis by (simp add: guild_step_def Let_def)
qed

lemma guilds_loop_logs: "\<exists>ls. logs (guilds_loop en key ev gs w) = logs w @ ls"
proof (induction gs arbitrary: w)
  case Nil
  then show ?case by simp
next
  case (Cons g gs)
  obtain xs where xs: "logs (guild_step en key ev g w) = logs w @ xs"
    using guild_step_logs by blast
  obtain ys where ys: "logs (guilds_loop en key ev gs (guild_step en key ev g w))
      = logs (guild_step en key ev g w) @ ys"
    using Cons.IH by blast
  have "logs (guilds_loop en key ev (g # gs) w) = logs w @ (xs @ ys)"
    using xs ys by simp
  then show ?case by blast
qed

lemma dispatch_logs: "\<exists>ls. logs (dispatch en key ev w) = logs w @ ls"
proof -
  obtain ls where "logs (guilds_loop en key ev (getAllByEvent key (guilds w))
        (info (FoundGuilds (length (getAllByEvent key (guilds w))) key) w))
     = logs (info (FoundGuilds (length (getAllByEvent key (guilds w))) key) w) @ ls"
    using guilds_loop_logs by blast
  then show ?thesis by (simp add: dispatch_def Let_def)
qed

lemma create_branch:
  assumes unseen: "findFirst k (timestamp ev) (notifications w) = None"
    and go: "\<not> (k = h \<and> Date_now en k < timestamp ev * 1000 + 30 * 1000)"
  shows "process_entry h en k ev w =
           (if Date_now en k > timestamp ev * 1000 + 5 * 60 * 1000
            then info (TooOld k) (notification_create en k ev (if k = h then refresh ev else 0) w)
            else dispatch en k ev
                   (notification_create en k ev (if k = h then refresh ev else 0) w))"
  using assms
  by (auto simp add: process_entry_def Let_def duration_seconds_def duration_minutes_def)

lemma created_found:
  assumes "findFirst k (timestamp ev) (notifications w) = None" and "create_ok en k"
  shows "findFirst k (timestamp ev) (notifications (notification_create en k ev rt w))
           = Some \<lparr>nid = fresh_id (notifications w), ntype = k, ndata = ev,
                    ntimestamp = timestamp ev, refreshTimestamp = rt, refreshed = False\<rparr>"
  using assms by (simp add: notification_create_notifications findFirst_append)

lemma create_then_effects:
  "\<exists>xs. effects (if c then info l (notification_create en k ev rt w)
                 else dispatch en k ev (notification_create en k ev rt w))
          = effects w @ DbCreate k ev (timestamp ev) rt (create_ok en k) # xs"
  using dispatch_effects [of en k ev "notification_create en k ev rt w"] by auto

lemma deliver_sends:
  assumes "channelId s = Some c" and "c \<noteq> []"
  shows "\<exists>xs. effects (snd (deliver en key g s (m, w)))
            = effects w @ Broadcast c (mention s m) (messageId s)
                            (broadcast en (effects w) c (mention s m) (messageId s)) # xs
          \<and> (\<forall>e \<in> set xs. \<not> is_broadcast e)"
proof -
  let ?w1 = "info (Broadcasting key (gid g)) w"
  let ?r = "broadcast en (effects w) c (mention s m) (messageId s)"
  let ?w2 = "perform (Broadcast c (mention s m) (messageId s) ?r) ?w1"
  obtain xs where xs: "effects (write_back en key g c ?r ?w2) = effects ?w2 @ xs"
    "\<forall>e \<in> set xs. \<not> is_broadcast e"
    using write_back_effects [of en key g c ?r ?w2] by blast
  have "snd (deliver en key g s (m, w)) = write_back en key g c ?r ?w2"
    using assms by (simp add: deliver_def Let_def)
  then show ?thesis using xs by simp
qed

lemma updateEventMessageId_sets:
  assumes "g' \<in> set (updateEventMessageId True gi key c mid gs)" and "guildId g' = gi"
    and "s' \<in> set (events g')" and "stype s' = key" and "channelId s' = Some c"
  shows "messageId s' = mid"
proof -
  from assms(1) obtain x where x: "x \<in> set gs"
    "g' = (if guildId x = gi then x\<lparr>events := map (write_setting key c mid) (events x)\<rparr> else x)"
    by (auto simp add: updateEventMessageId_def)
  have "guildId x = gi" using x(2) assms(2) by (simp split: if_splits)
  then have "events g' = map (write_setting key c mid) (events x)" using x(2) by simp
  then obtain y where y: "y \<in> set (events x)" "s' = write_setting key c mid y"
    using assms(3) by auto
  then show ?thesis using assms(4,5) by (auto simp add: write_setting_def split: if_splits)
qed

lemma updateEventMessageId_keeps:
  assumes "g \<in> set gs" and "s \<in> set (events g)" and "stype s = key"
    and "channelId s = Some c"
  shows "\<exists>g' \<in> set (updateEventMessageId True (guildId g) key c mid gs).
           guildId g' = guildId g \<and> s\<lparr>messageId := mid\<rparr> \<in> set (events g')"
proof -
  let ?g = "g\<lparr>events := map (write_setting key c mid) (events g)\<rparr>"
  have a: "?g \<in> set (updateEventMessageId True (guildId g) key c mid gs)"
    using assms(1) by (force simp add: updateEventMessageId_def)
  have "write_setting key c mid s = s\<lparr>messageId := mid\<rparr>"
    using assms(3,4) by (simp add: write_setting_def)
  then have b: "s\<lparr>messageId := mid\<rparr> \<in> set (events ?g)"
    using assms(2) by force
  have c: "guildId ?g = guildId g" by simp
  show ?thesis using a b c by (intro bexI [of _ ?g] conjI)
qed

lemma deliver_world:
  assumes "channelId s = Some c" and "c \<noteq> []"
  shows "snd (deliver en key g s (m, w))
           = write_back en key g c (broadcast en (effects w) c (mention s m) (messageId s))
               (perform (Broadcast c (mention s m) (messageId s)
                           (broadcast en (effects w) c (mention s m) (messageId s)))
                  (info (Broadcasting key (gid g)) w))"
  using assms by (simp add: deliver_def Let_def)

section \<open>The refresh window\<close>

text \<open>
  Claim C1, as amended. Let the record \<open>r\<close> of an occurrence have a refresh timestamp
  \<open>R > 0\<close> and \<open>refreshed = false\<close>, and let \<open>T\<close> be its timestamp. On a tick the
  refresh-trigger fires (the update to \<open>refreshed: true\<close> is issued and the dispatch
  runs) exactly when the current time lies in \<open>[T, T + 3600 s]\<close> and is at least \<open>R\<close>;
  otherwise the tick only logs that the event is not ready. When it fires and the
  update succeeds, the record is refreshed after the tick, and on every later run of
  ticks it stays refreshed and no further broadcast is made for the occurrence.
\<close>

theorem refresh_trigger_window:
  assumes found: "findFirst k (timestamp ev) (notifications w) = Some r"
    and pending: "refreshTimestamp r > 0 \<and> \<not> refreshed r"
  shows "ntimestamp r = timestamp ev
       \<and> process_entry h en k ev w =
           (if ntimestamp r * 1000 \<le> Date_now en k
               \<and> Date_now en k \<le> ntimestamp r * 1000 + 3600 * 1000
               \<and> refreshTimestamp r * 1000 \<le> Date_now en k
            then dispatch en k ev (notification_update en k (nid r) w)
            else info (NotReady k) w)
       \<and> ((\<exists>xs. effects (process_entry h en k ev w)
                   = effects w @ DbUpdate (nid r) (update_ok en k) # xs)
            = (ntimestamp r * 1000 \<le> Date_now en k
               \<and> Date_now en k \<le> ntimestamp r * 1000 + 3600 * 1000
               \<and> refreshTimestamp r * 1000 \<le> Date_now en k))
       \<and> (ntimestamp r * 1000 \<le> Date_now en k
            \<and> Date_now en k \<le> ntimestamp r * 1000 + 3600 * 1000
            \<and> refreshTimestamp r * 1000 \<le> Date_now en k
            \<and> update_ok en k \<longrightarrow>
          findFirst k (timestamp ev) (notifications (process_entry h en k ev w))
            = Some (r\<lparr>refreshed := True\<rparr>)
          \<and> (\<forall>ts. (\<exists>r'. findFirst k (timestamp ev)
                           (notifications (run h ts (process_entry h en k ev w))) = Some r'
                        \<and> refreshed r')
                  \<and> filter (is_broadcast_for k (timestamp ev))
                       (effects (run h ts (process_entry h en k ev w)))
                     = filter (is_broadcast_for k (timestamp ev))
                         (effects (process_entry h en k ev w))))"
proof -
  let ?fire = "ntimestamp r * 1000 \<le> Date_now en k
               \<and> Date_now en k \<le> ntimestamp r * 1000 + 3600 * 1000
               \<and> refreshTimestamp r * 1000 \<le> Date_now en k"
  let ?w = "process_entry h en k ev w"
  have ts: "ntimestamp r = timestamp ev" using findFirst_Some [OF found] by simp
  have eq: "?w = (if ?fire then dispatch en k ev (notification_update en k (nid r) w)
                  else info (NotReady k) w)"
    using refresh_branch [OF found] pending by simp
  have upd: "(\<exists>xs. effects ?w = effects w @ DbUpdate (nid r) (update_ok en k) # xs) = ?fire"
  proof (cases ?fire)
    case True
    then show ?thesis using eq dispatch_after_update_effects [of en k ev "nid r" w] by auto
  next
    case False
    then have "(if ?fire then dispatch en k ev (notification_update en k (nid r) w)
                else info (NotReady k) w) = info (NotReady k) w"
      by (rule if_not_P)
    then have "effects ?w = effects w" using eq by simp
    then show ?thesis using False by simp
  qed
  have later: "findFirst k (timestamp ev) (notifications ?w) = Some (r\<lparr>refreshed := True\<rparr>)
      \<and> (\<forall>ts. (\<exists>r'. findFirst k (timestamp ev) (notifications (run h ts ?w)) = Some r'
                    \<and> refreshed r')
              \<and> filter (is_broadcast_for k (timestamp ev)) (effects (run h ts ?w))
                 = filter (is_broadcast_for k (timestamp ev)) (effects ?w))"
    if fire: ?fire and ok: "update_ok en k"
  proof -
    have w: "?w = dispatch en k ev (notification_update en k (nid r) w)" using eq fire by simp
    have f: "findFirst k (timestamp ev) (notifications ?w) = Some (r\<lparr>refreshed := True\<rparr>)"
      unfolding w using after_update [OF found ok] .
    then have r: "\<exists>r'. findFirst k (timestamp ev) (notifications ?w) = Some r' \<and> refreshed r'"
      by simp
    show ?thesis
      using f run_refreshed [OF r] run_broadcasts [OF refreshed_handled [OF r]] by blast
  qed
  show ?thesis using ts eq upd later by blast
qed

text \<open>
  The theorem at the record \<open>n0\<close>, 700 s after the start: the two settings of the
  guild are served once, the record is refreshed, and a tick a minute later adds nothing.
\<close>

theorem refresh_trigger_window_witness:
  "findFirst ''helltide'' (timestamp ev0) (notifications w1) = Some n0
   \<and> 0 < refreshTimestamp n0 \<and> \<not> refreshed n0
   \<and> findFirst ''helltide'' (timestamp ev0)
        (notifications (process_entry ''helltide'' (env_at 1700000 True True (Some [Some ''m1'']))
           ''helltide'' ev0 w1)) = Some (n0\<lparr>refreshed := True\<rparr>)
   \<and> filter (is_broadcast_for ''helltide'' (timestamp ev0))
        (effects (run ''helltide''
           [(env_at 1760000 True True (Some [Some ''m2'']), Some \<lparr>event_service = True\<rparr>,
             Some [(''helltide'', ev0)])]
           (process_entry ''helltide'' (env_at 1700000 True True (Some [Some ''m1'']))
              ''helltide'' ev0 w1)))
       = filter (is_broadcast_for ''helltide'' (timestamp ev0))
           (effects (process_entry ''helltide'' (env_at 1700000 True True (Some [Some ''m1'']))
              ''helltide'' ev0 w1))
   \<and> length (filter (is_broadcast_for ''helltide'' (timestamp ev0))
           (effects (process_entry ''helltide'' (env_at 1700000 True True (Some [Some ''m1'']))
              ''helltide'' ev0 w1))) = 2"
proof -
  let ?E = "env_at 1700000 True True (Some [Some ''m1''])"
  have f: "findFirst ''helltide'' (timestamp ev0) (notifications w1) = Some n0"
    by (simp add: eval_defs)
  have p: "0 < refreshTimestamp n0 \<and> \<not> refreshed n0"
    by (simp add: n0_def)
  have c: "ntimestamp n0 * 1000 \<le> Date_now ?E ''helltide''
            \<and> Date_now ?E ''helltide'' \<le> ntimestamp n0 * 1000 + 3600 * 1000
            \<and> refreshTimestamp n0 * 1000 \<le> Date_now ?E ''helltide''
            \<and> update_ok ?E ''helltide''"
    by (simp add: n0_def env_at_def)
  have n: "length (filter (is_broadcast_for ''helltide'' (timestamp ev0))
           (effects (process_entry ''helltide'' ?E ''helltide'' ev0 w1))) = 2"
    by (simp add: eval_defs)
  from refresh_trigger_window [OF f p, of "''helltide''" ?E] c
  show ?thesis using f p n by blast
qed

text \<open>
  Without the proviso the claim fails: when the update throws, the error is caught, the
  broadcasts go out, the record keeps \<open>refreshed = false\<close>, and the next tick fires again.
\<close>

theorem refresh_flag_counterexample:
  "findFirst ''helltide'' (timestamp ev0) (notifications w1) = Some n0
   \<and> 0 < refreshTimestamp n0 \<and> \<not> refreshed n0
   \<and> ntimestamp n0 * 1000 \<le> (1700000::int) \<and> (1700000::int) \<le> ntimestamp n0 * 1000 + 3600 * 1000
   \<and> refreshTimestamp n0 * 1000 \<le> (1700000::int)
   \<and> length (filter (is_broadcast_for ''helltide'' (timestamp ev0))
        (effects (process_entry ''helltide'' (env_at 1700000 True False (Some [Some ''m1'']))
           ''helltide'' ev0 w1))) = 2
   \<and> findFirst ''helltide'' (timestamp ev0)
        (notifications (process_entry ''helltide'' (env_at 1700000 True False (Some [Some ''m1'']))
           ''helltide'' ev0 w1)) = Some n0
   \<and> length (filter (is_broadcast_for ''helltide'' (timestamp ev0))
        (effects (process_entry ''helltide'' (env_at 1760000 True True (Some [Some ''m2'']))
           ''helltide'' ev0
           (process_entry ''helltide'' (env_at 1700000 True False (Some [Some ''m1'']))
              ''helltide'' ev0 w1)))) = 4"
  by (simp add: eval_defs)

section \<open>The first notification is not repeated\<close>

text \<open>
  Claim C2. When the create of a new occurrence succeeds, that create is the only one
  ever issued for the occurrence, over any later run of ticks. In general, once a
  record exists for an occurrence, an entry for it never takes the creation path again:
  the tick leaves the world as it is, or logs that the event is not ready, or (only
  while a refresh is pending) runs the refresh; over any later run of ticks no create
  is issued for the occurrence and its record stays; and when the record has no refresh
  phase or is already refreshed, the entry changes nothing and no broadcast is ever
  made for the occurrence again.
\<close>

theorem first_notification_idempotent:
  "(findFirst k (timestamp ev) (notifications w) = None
      \<and> \<not> (k = h \<and> Date_now en k < timestamp ev * 1000 + 30 * 1000)
      \<and> create_ok en k \<longrightarrow>
      (\<forall>ts. filter (is_create_for k (timestamp ev))
               (effects (run h ts (process_entry h en k ev w)))
             = filter (is_create_for k (timestamp ev)) (effects w)
               @ [DbCreate k ev (timestamp ev) (if k = h then refresh ev else 0) True]))
   \<and> (findFirst k (timestamp ev) (notifications w) = Some r \<longrightarrow>
       (process_entry h en k ev w = w
          \<or> process_entry h en k ev w = info (NotReady k) w
          \<or> (0 < refreshTimestamp r \<and> \<not> refreshed r
              \<and> process_entry h en k ev w
                  = dispatch en k ev (notification_update en k (nid r) w)))
       \<and> (\<forall>ts. filter (is_create_for k (timestamp ev)) (effects (run h ts w))
                  = filter (is_create_for k (timestamp ev)) (effects w)
               \<and> findFirst k (timestamp ev) (notifications (run h ts w)) \<noteq> None)
       \<and> (\<not> (0 < refreshTimestamp r \<and> \<not> refreshed r) \<longrightarrow>
            process_entry h en k ev w = w
            \<and> (\<forall>ts. filter (is_broadcast_for k (timestamp ev)) (effects (run h ts w))
                     = filter (is_broadcast_for k (timestamp ev)) (effects w))))"
proof -
  let ?w = "process_entry h en k ev w"
  let ?rt = "if k = h then refresh ev else 0"
  have fresh: "\<forall>ts. filter (is_create_for k (timestamp ev)) (effects (run h ts ?w))
             = filter (is_create_for k (timestamp ev)) (effects w)
               @ [DbCreate k ev (timestamp ev) ?rt True]"
    if unseen: "findFirst k (timestamp ev) (notifications w) = None"
      and go: "\<not> (k = h \<and> Date_now en k < timestamp ev * 1000 + 30 * 1000)"
      and ok: "create_ok en k"
  proof -
    note eq = create_branch [OF unseen go]
    have d: "filter (is_create_for k (timestamp ev)) (effects (dispatch en k ev w'))
               = filter (is_create_for k (timestamp ev)) (effects w')" for w'
      by (rule dispatch_filter) (rule from_dispatch_not_create)
    have one: "filter (is_create_for k (timestamp ev)) (effects ?w)
             = filter (is_create_for k (timestamp ev)) (effects w)
               @ [DbCreate k ev (timestamp ev) ?rt True]"
      unfolding eq using ok by (simp add: d)
    have "notifications ?w = notifications (notification_create en k ev ?rt w)"
      unfolding eq by simp
    then have "findFirst k (timestamp ev) (notifications ?w) \<noteq> None"
      using created_found [OF unseen ok, of ?rt] by (simp only:) simp
    then show ?thesis using run_creates one by simp
  qed
  have seen: "(process_entry h en k ev w = w
          \<or> process_entry h en k ev w = info (NotReady k) w
          \<or> (0 < refreshTimestamp r \<and> \<not> refreshed r
              \<and> process_entry h en k ev w
                  = dispatch en k ev (notification_update en k (nid r) w)))
       \<and> (\<forall>ts. filter (is_create_for k (timestamp ev)) (effects (run h ts w))
                  = filter (is_create_for k (timestamp ev)) (effects w)
               \<and> findFirst k (timestamp ev) (notifications (run h ts w)) \<noteq> None)
       \<and> (\<not> (0 < refreshTimestamp r \<and> \<not> refreshed r) \<longrightarrow>
            process_entry h en k ev w = w
            \<and> (\<forall>ts. filter (is_broadcast_for k (timestamp ev)) (effects (run h ts w))
                     = filter (is_broadcast_for k (timestamp ev)) (effects w)))"
    if found: "findFirst k (timestamp ev) (notifications w) = Some r"
  proof -
    have ex: "findFirst k (timestamp ev) (notifications w) \<noteq> None" using found by simp
    have path: "process_entry h en k ev w = w
          \<or> process_entry h en k ev w = info (NotReady k) w
          \<or> (0 < refreshTimestamp r \<and> \<not> refreshed r
              \<and> process_entry h en k ev w
                  = dispatch en k ev (notification_update en k (nid r) w))"
    proof (cases "0 < refreshTimestamp r \<and> \<not> refreshed r")
      case True
      then show ?thesis using refresh_branch [OF found, of h en] by presburger
    next
      case False
      then have "handled k (timestamp ev) (notifications w)"
        using found by (simp add: handled_def)
      then show ?thesis using process_entry_handled by blast
    qed
    have creates: "\<forall>ts. filter (is_create_for k (timestamp ev)) (effects (run h ts w))
                  = filter (is_create_for k (timestamp ev)) (effects w)
               \<and> findFirst k (timestamp ev) (notifications (run h ts w)) \<noteq> None"
      using run_creates [OF ex] run_exists [OF ex] by blast
    have settled: "process_entry h en k ev w = w
            \<and> (\<forall>ts. filter (is_broadcast_for k (timestamp ev)) (effects (run h ts w))
                     = filter (is_broadcast_for k (timestamp ev)) (effects w))"
      if "\<not> (0 < refreshTimestamp r \<and> \<not> refreshed r)"
    proof -
      have "handled k (timestamp ev) (notifications w)"
        using found that by (simp add: handled_def)
      then show ?thesis using process_entry_handled run_broadcasts by blast
    qed
    show ?thesis using path creates settled by blast
  qed
  show ?thesis using fresh seen by blast
qed

text \<open>
  The theorem at the Helltide entry. First sighted 40 s after its start, it is created
  once, and the tick of the refresh, 700 s after the start, creates nothing. At its
  refreshed record, a tick inside the refresh window, with the entry still in the feed,
  creates nothing and broadcasts nothing.
\<close>

theorem first_notification_idempotent_witness:
  "findFirst ''helltide'' (timestamp ev0) (notifications w0) = None
   \<and> filter (is_create_for ''helltide'' (timestamp ev0))
        (effects (run ''helltide''
           [(env_at 1700000 True True (Some [Some ''m2'']), Some \<lparr>event_service = True\<rparr>,
             Some [(''helltide'', ev0)])]
           (process_entry ''helltide'' (env_at 1040000 True True (Some [Some ''m1'']))
              ''helltide'' ev0 w0)))
     = [DbCreate ''helltide'' ev0 1000 1600 True]
   \<and> findFirst ''helltide'' (timestamp ev0)
       (notifications (w1\<lparr>notifications := [n0\<lparr>refreshed := True\<rparr>]\<rparr>))
     = Some (n0\<lparr>refreshed := True\<rparr>)
   \<and> process_entry ''helltide'' (env_at 1760000 True True (Some [Some ''m2''])) ''helltide'' ev0
        (w1\<lparr>notifications := [n0\<lparr>refreshed := True\<rparr>]\<rparr>)
     = w1\<lparr>notifications := [n0\<lparr>refreshed := True\<rparr>]\<rparr>
   \<and> filter (is_create_for ''helltide'' (timestamp ev0))
        (effects (run ''helltide''
           [(env_at 1760000 True True (Some [Some ''m2'']), Some \<lparr>event_service = True\<rparr>,
             Some [(''helltide'', ev0)])]
           (w1\<lparr>notifications := [n0\<lparr>refreshed := True\<rparr>]\<rparr>)))
     = filter (is_create_for ''helltide'' (timestamp ev0))
         (effects (w1\<lparr>notifications := [n0\<lparr>refreshed := True\<rparr>]\<rparr>))
   \<and> filter (is_broadcast_for ''helltide'' (timestamp ev0))
        (effects (run ''helltide''
           [(env_at 1760000 True True (Some [Some ''m2'']), Some \<lparr>event_service = True\<rparr>,
             Some [(''helltide'', ev0)])]
           (w1\<lparr>notifications := [n0\<lparr>refreshed := True\<rparr>]\<rparr>)))
     = filter (is_broadcast_for ''helltide'' (timestamp ev0))
         (effects (w1\<lparr>notifications := [n0\<lparr>refreshed := True\<rparr>]\<rparr>))"
proof -
  let ?W = "w1\<lparr>notifications := [n0\<lparr>refreshed := True\<rparr>]\<rparr>"
  let ?E = "env_at 1040000 True True (Some [Some ''m1''])"
  have u: "findFirst ''helltide'' (timestamp ev0) (notifications w0) = None"
    by (simp add: eval_defs)
  have g: "\<not> (''helltide'' = ''helltide''
              \<and> Date_now ?E ''helltide'' < timestamp ev0 * 1000 + 30 * 1000)"
    by (simp add: env_at_def ev0_def)
  have c: "create_ok ?E ''helltide''" by (simp add: env_at_def)
  have v: "filter (is_create_for ''helltide'' (timestamp ev0)) (effects w0)
             @ [DbCreate ''helltide'' ev0 (timestamp ev0)
                  (if ''helltide'' = ''helltide'' then refresh ev0 else 0) True]
           = [DbCreate ''helltide'' ev0 1000 1600 True]"
    by (simp add: w0_def ev0_def)
  have f: "findFirst ''helltide'' (timestamp ev0) (notifications ?W)
             = Some (n0\<lparr>refreshed := True\<rparr>)"
    by (simp add: eval_defs)
  have p: "\<not> (0 < refreshTimestamp (n0\<lparr>refreshed := True\<rparr>)
               \<and> \<not> refreshed (n0\<lparr>refreshed := True\<rparr>))"
    by simp
  note t = first_notification_idempotent
    [of "''helltide''" ev0 w0 "''helltide''" ?E n0]
  have a: "filter (is_create_for ''helltide'' (timestamp ev0))
        (effects (run ''helltide''
           [(env_at 1700000 True True (Some [Some ''m2'']), Some \<lparr>event_service = True\<rparr>,
             Some [(''helltide'', ev0)])]
           (process_entry ''helltide'' ?E ''helltide'' ev0 w0)))
     = [DbCreate ''helltide'' ev0 1000 1600 True]"
    using t u g c unfolding v [symmetric] by blast
  from first_notification_idempotent
    [of "''helltide''" ev0 ?W "''helltide''" "env_at 1760000 True True (Some [Some ''m2''])"
        "n0\<lparr>refreshed := True\<rparr>"] f p
  show ?thesis using u a f by blast
qed

section \<open>Mention suffixes\<close>

text \<open>
  Claim C3 does not hold of the code. The message object is built once per guild and
  the loop over the settings appends to its content: after a first setting with role
  \<open>r1\<close>, the message sent for a second setting with role \<open>r2\<close> carries both mention
  suffixes, while its allowed mentions name \<open>r2\<close> alone.
\<close>

theorem mention_suffixes_accumulate:
  assumes r1: "roleId s1 = Some r1 \<and> r1 \<noteq> []"
    and r2: "roleId s2 = Some r2 \<and> r2 \<noteq> []"
    and c2: "channelId s2 = Some c2 \<and> c2 \<noteq> []"
  shows "\<exists>xs. effects (snd (settings_loop en key g [s1, s2] (m, w)))
            = effects (snd (deliver en key g s1 (m, w)))
              @ Broadcast c2
                  (m\<lparr>content := content m @ '' - <@&'' @ r1 @ ''>'' @ '' - <@&'' @ r2 @ ''>'',
                     allowedMentions := Some [r2]\<rparr>)
                  (messageId s2)
                  (broadcast en (effects (snd (deliver en key g s1 (m, w)))) c2
                     (m\<lparr>content := content m @ '' - <@&'' @ r1 @ ''>'' @ '' - <@&'' @ r2 @ ''>'',
                        allowedMentions := Some [r2]\<rparr>)
                     (messageId s2)) # xs
          \<and> (\<forall>e \<in> set xs. \<not> is_broadcast e)"
proof -
  let ?mw = "deliver en key g s1 (m, w)"
  have m: "mention s2 (fst ?mw)
             = m\<lparr>content := content m @ '' - <@&'' @ r1 @ ''>'' @ '' - <@&'' @ r2 @ ''>'',
                 allowedMentions := Some [r2]\<rparr>"
    using r1 r2 by (simp add: mention_def)
  have sl: "settings_loop en key g [s1, s2] (m, w) = deliver en key g s2 (fst ?mw, snd ?mw)"
    by (simp only: settings_loop.simps prod.collapse)
  note ds = deliver_sends [OF conjunct1 [OF c2] conjunct2 [OF c2],
      of en key g "fst ?mw" "snd ?mw"]
  show ?thesis unfolding sl using ds by (simp only: m)
qed

text \<open>
  The theorem at the guild \<open>g0\<close>, whose two Helltide settings have the roles \<open>r1\<close> and
  \<open>r2\<close>: the message for channel \<open>c2\<close> reads \<open>T - <@&r1> - <@&r2>\<close>.
\<close>

theorem mention_suffixes_accumulate_witness:
  "effects (snd (settings_loop (env_at 1040000 True True None) ''helltide'' g0 (events g0)
       (\<lparr>content = ''T'', embeds = [(''helltide'', ev0)], allowedMentions = None\<rparr>, w0)))
     = [Broadcast ''c1'' \<lparr>content = ''T - <@&r1>'', embeds = [(''helltide'', ev0)],
                          allowedMentions = Some [''r1'']\<rparr> None None,
        Broadcast ''c2'' \<lparr>content = ''T - <@&r1> - <@&r2>'', embeds = [(''helltide'', ev0)],
                          allowedMentions = Some [''r2'']\<rparr> None None]"
proof -
  let ?E = "env_at 1040000 True True None"
  let ?s1 = "\<lparr>stype = ''helltide'', channelId = Some ''c1'', roleId = Some ''r1'',
              messageId = None\<rparr>"
  let ?s2 = "\<lparr>stype = ''helltide'', channelId = Some ''c2'', roleId = Some ''r2'',
              messageId = None\<rparr>"
  let ?m = "\<lparr>content = ''T'', embeds = [(''helltide'', ev0)], allowedMentions = None\<rparr>"
  have ev: "events g0 = [?s1, ?s2]" by (simp add: g0_def)
  have a: "roleId ?s1 = Some ''r1'' \<and> ''r1'' \<noteq> []" by simp
  have b: "roleId ?s2 = Some ''r2'' \<and> ''r2'' \<noteq> []" by simp
  have c: "channelId ?s2 = Some ''c2'' \<and> ''c2'' \<noteq> []" by simp
  have d: "effects (snd (deliver ?E ''helltide'' g0 ?s1 (?m, w0)))
             = [Broadcast ''c1'' \<lparr>content = ''T - <@&r1>'', embeds = [(''helltide'', ev0)],
                          allowedMentions = Some [''r1'']\<rparr> None None]"
    by (simp add: eval_defs)
  have n: "length (effects (snd (settings_loop ?E ''helltide'' g0 [?s1, ?s2] (?m, w0)))) = 2"
    by (simp add: eval_defs)
  from mention_suffixes_accumulate [OF a b c, of ?E "''helltide''" g0 ?m w0]
  obtain xs where xs: "effects (snd (settings_loop ?E ''helltide'' g0 [?s1, ?s2] (?m, w0)))
      = effects (snd (deliver ?E ''helltide'' g0 ?s1 (?m, w0)))
        @ Broadcast ''c2''
            (?m\<lparr>content := content ?m @ '' - <@&'' @ ''r1'' @ ''>'' @ '' - <@&'' @ ''r2'' @ ''>'',
                allowedMentions := Some [''r2'']\<rparr>)
            (messageId ?s2)
            (broadcast ?E (effects (snd (deliver ?E ''helltide'' g0 ?s1 (?m, w0)))) ''c2''
               (?m\<lparr>content := content ?m @ '' - <@&'' @ ''r1'' @ ''>'' @ '' - <@&'' @ ''r2'' @ ''>'',
                   allowedMentions := Some [''r2'']\<rparr>)
               (messageId ?s2)) # xs"
    by blast
  have "xs = []" using n xs d by simp
  then show ?thesis using xs d unfolding ev by (simp add: env_at_def)
qed

section \<open>Write-back of the message id\<close>

text \<open>
  Claim C4, as amended. Take a delivery setting with a channel. When the broadcaster
  answers with a message first in its array, the write-back is called with the
  identifier of that message, right after the broadcast; when that write-back
  succeeds, every setting of that guild for this type and channel stores the
  identifier, the served setting among them, and when it fails the repository is left
  as it was. When the broadcaster answers null, or with an empty array, the broadcast
  is the last call made for the setting: no write-back occurs and the repository is
  left as it was.
\<close>

theorem message_id_write_back:
  assumes ch: "channelId s = Some c \<and> c \<noteq> []"
  shows "(broadcast en (effects w) c (mention s m) (messageId s) = Some (Some i # rest) \<longrightarrow>
            effects (snd (deliver en key g s (m, w)))
              = effects w @ [Broadcast c (mention s m) (messageId s) (Some (Some i # rest)),
                             WriteBack (guildId g) key c (Some i)
                               (writeBack_ok en
                                  (effects w @ [Broadcast c (mention s m) (messageId s)
                                                  (Some (Some i # rest))]))]
            \<and> (writeBack_ok en
                  (effects w @ [Broadcast c (mention s m) (messageId s) (Some (Some i # rest))])
                \<longrightarrow>
                  guilds (snd (deliver en key g s (m, w)))
                    = updateEventMessageId True (guildId g) key c (Some i) (guilds w)
                  \<and> (\<forall>g' \<in> set (guilds (snd (deliver en key g s (m, w)))).
                        guildId g' = guildId g \<longrightarrow>
                        (\<forall>s' \<in> set (events g').
                           stype s' = key \<and> channelId s' = Some c \<longrightarrow> messageId s' = Some i))
                  \<and> (g \<in> set (guilds w) \<and> s \<in> set (events g) \<and> stype s = key \<longrightarrow>
                       (\<exists>g' \<in> set (guilds (snd (deliver en key g s (m, w)))).
                          guildId g' = guildId g
                          \<and> s\<lparr>messageId := Some i\<rparr> \<in> set (events g'))))
            \<and> (\<not> writeBack_ok en
                    (effects w @ [Broadcast c (mention s m) (messageId s) (Some (Some i # rest))])
                \<longrightarrow> guilds (snd (deliver en key g s (m, w))) = guilds w))
       \<and> (broadcast en (effects w) c (mention s m) (messageId s) = None
          \<or> broadcast en (effects w) c (mention s m) (messageId s) = Some [] \<longrightarrow>
            effects (snd (deliver en key g s (m, w)))
              = effects w @ [Broadcast c (mention s m) (messageId s)
                               (broadcast en (effects w) c (mention s m) (messageId s))]
            \<and> guilds (snd (deliver en key g s (m, w))) = guilds w)"
proof -
  let ?w = "snd (deliver en key g s (m, w))"
  let ?r = "broadcast en (effects w) c (mention s m) (messageId s)"
  let ?ok = "writeBack_ok en
               (effects w @ [Broadcast c (mention s m) (messageId s) (Some (Some i # rest))])"
  have c: "channelId s = Some c" and ne: "c \<noteq> []" using ch by simp_all
  note dw = deliver_world [OF c ne, of en key g m w]
  have good: "effects ?w = effects w @ [Broadcast c (mention s m) (messageId s) (Some (Some i # rest)),
                             WriteBack (guildId g) key c (Some i) ?ok]
            \<and> (?ok \<longrightarrow>
                  guilds ?w = updateEventMessageId True (guildId g) key c (Some i) (guilds w)
                  \<and> (\<forall>g' \<in> set (guilds ?w). guildId g' = guildId g \<longrightarrow>
                        (\<forall>s' \<in> set (events g').
                           stype s' = key \<and> channelId s' = Some c \<longrightarrow> messageId s' = Some i))
                  \<and> (g \<in> set (guilds w) \<and> s \<in> set (events g) \<and> stype s = key \<longrightarrow>
                       (\<exists>g' \<in> set (guilds ?w).
                          guildId g' = guildId g
                          \<and> s\<lparr>messageId := Some i\<rparr> \<in> set (events g'))))
            \<and> (\<not> ?ok \<longrightarrow> guilds ?w = guilds w)"
    if r: "?r = Some (Some i # rest)"
  proof -
    have e: "effects ?w = effects w @ [Broadcast c (mention s m) (messageId s) (Some (Some i # rest)),
                             WriteBack (guildId g) key c (Some i) ?ok]"
      unfolding dw r by (simp add: write_back_def Let_def)
    have gs: "guilds ?w = updateEventMessageId ?ok (guildId g) key c (Some i) (guilds w)"
      unfolding dw r by (simp add: write_back_def Let_def)
    have stored: "guilds ?w = updateEventMessageId True (guildId g) key c (Some i) (guilds w)
                  \<and> (\<forall>g' \<in> set (guilds ?w). guildId g' = guildId g \<longrightarrow>
                        (\<forall>s' \<in> set (events g').
                           stype s' = key \<and> channelId s' = Some c \<longrightarrow> messageId s' = Some i))
                  \<and> (g \<in> set (guilds w) \<and> s \<in> set (events g) \<and> stype s = key \<longrightarrow>
                       (\<exists>g' \<in> set (guilds ?w).
                          guildId g' = guildId g
                          \<and> s\<lparr>messageId := Some i\<rparr> \<in> set (events g')))"
      if ok: ?ok
    proof -
      have gs': "guilds ?w = updateEventMessageId True (guildId g) key c (Some i) (guilds w)"
        using gs ok by simp
      have every: "\<forall>g' \<in> set (guilds ?w). guildId g' = guildId g \<longrightarrow>
                  (\<forall>s' \<in> set (events g').
                     stype s' = key \<and> channelId s' = Some c \<longrightarrow> messageId s' = Some i)"
        unfolding gs' using updateEventMessageId_sets by blast
      have this_one: "\<exists>g' \<in> set (guilds ?w).
                    guildId g' = guildId g \<and> s\<lparr>messageId := Some i\<rparr> \<in> set (events g')"
        if "g \<in> set (guilds w) \<and> s \<in> set (events g) \<and> stype s = key"
        unfolding gs' using updateEventMessageId_keeps [of g "guilds w" s key c "Some i"] that c
        by blast
      show ?thesis using gs' every this_one by blast
    qed
    have kept: "guilds ?w = guilds w" if "\<not> ?ok"
      using gs that by (simp add: updateEventMessageId_def)
    show ?thesis using e stored kept by blast
  qed
  have bad: "effects ?w = effects w @ [Broadcast c (mention s m) (messageId s) ?r]
            \<and> guilds ?w = guilds w"
    if r: "?r = None \<or> ?r = Some []"
  proof -
    have "write_back en key g c ?r w' = w'" for w'
      using r by (auto simp add: write_back_def)
    then show ?thesis unfolding dw by simp
  qed
  show ?thesis using good bad by blast
qed

text \<open>
  The theorem at the first setting of \<open>g0\<close>: with the answer \<open>[m1]\<close> and a write-back
  that succeeds the setting stores \<open>m1\<close>; with the answer null the repository is
  unchanged.
\<close>

theorem message_id_write_back_witness:
  "guilds (snd (deliver (env_at 1040000 True True (Some [Some ''m1''])) ''helltide'' g0
       \<lparr>stype = ''helltide'', channelId = Some ''c1'', roleId = Some ''r1'', messageId = None\<rparr>
       (\<lparr>content = ''T'', embeds = [(''helltide'', ev0)], allowedMentions = None\<rparr>, w0)))
     = [g0\<lparr>events :=
            [\<lparr>stype = ''helltide'', channelId = Some ''c1'', roleId = Some ''r1'',
               messageId = Some ''m1''\<rparr>,
             \<lparr>stype = ''helltide'', channelId = Some ''c2'', roleId = Some ''r2'',
               messageId = None\<rparr>]\<rparr>]
   \<and> guilds (snd (deliver (env_at 1040000 True True None) ''helltide'' g0
       \<lparr>stype = ''helltide'', channelId = Some ''c1'', roleId = Some ''r1'', messageId = None\<rparr>
       (\<lparr>content = ''T'', embeds = [(''helltide'', ev0)], allowedMentions = None\<rparr>, w0)))
     = guilds w0"
proof -
  let ?s = "\<lparr>stype = ''helltide'', channelId = Some ''c1'', roleId = Some ''r1'',
             messageId = None\<rparr>"
  let ?m = "\<lparr>content = ''T'', embeds = [(''helltide'', ev0)], allowedMentions = None\<rparr>"
  let ?E = "env_at 1040000 True True (Some [Some ''m1''])"
  let ?F = "env_at 1040000 True True None"
  have ch: "channelId ?s = Some ''c1'' \<and> ''c1'' \<noteq> []" by simp
  have r: "broadcast ?E (effects w0) ''c1'' (mention ?s ?m) (messageId ?s)
             = Some (Some ''m1'' # [])"
    by (simp add: env_at_def)
  have k: "writeBack_ok ?E
             (effects w0 @ [Broadcast ''c1'' (mention ?s ?m) (messageId ?s)
                              (Some (Some ''m1'' # []))])"
    by (simp add: env_at_def)
  have r': "broadcast ?F (effects w0) ''c1'' (mention ?s ?m) (messageId ?s) = None"
    by (simp add: env_at_def)
  have u: "updateEventMessageId True (guildId g0) ''helltide'' ''c1'' (Some ''m1'') (guilds w0)
     = [g0\<lparr>events :=
            [\<lparr>stype = ''helltide'', channelId = Some ''c1'', roleId = Some ''r1'',
               messageId = Some ''m1''\<rparr>,
             \<lparr>stype = ''helltide'', channelId = Some ''c2'', roleId = Some ''r2'',
               messageId = None\<rparr>]\<rparr>]"
    by (simp add: updateEventMessageId_def write_setting_def w0_def g0_def)
  have a: "guilds (snd (deliver ?E ''helltide'' g0 ?s (?m, w0)))
             = updateEventMessageId True (guildId g0) ''helltide'' ''c1'' (Some ''m1'')
                 (guilds w0)"
    using message_id_write_back [OF ch, of ?E w0 ?m "''m1''" "[]" "''helltide''" g0] r k
    by blast
  have b: "guilds (snd (deliver ?F ''helltide'' g0 ?s (?m, w0))) = guilds w0"
    using message_id_write_back [OF ch, of ?F w0 ?m "''m1''" "[]" "''helltide''" g0] r' by blast
  show ?thesis using a b unfolding u by blast
qed

text \<open>
  As stated the claim fails twice over. When the broadcaster answers \<open>[m1]\<close> and the
  write-back fails, the setting keeps the message id it had, not \<open>m1\<close>. And when the
  send fails with the answer \<open>[null]\<close>, an array whose first element is null, the
  guard on the array passes and the write-back is called, with an undefined id.
\<close>

theorem message_id_write_back_counterexample:
  "effects (snd (deliver (env_no_write_back (Some [Some ''m1''])) ''helltide'' g0
       \<lparr>stype = ''helltide'', channelId = Some ''c1'', roleId = Some ''r1'', messageId = None\<rparr>
       (\<lparr>content = ''T'', embeds = [(''helltide'', ev0)], allowedMentions = None\<rparr>, w0)))
     = [Broadcast ''c1'' \<lparr>content = ''T - <@&r1>'', embeds = [(''helltide'', ev0)],
                          allowedMentions = Some [''r1'']\<rparr> None (Some [Some ''m1'']),
        WriteBack ''G'' ''helltide'' ''c1'' (Some ''m1'') False]
   \<and> guilds (snd (deliver (env_no_write_back (Some [Some ''m1''])) ''helltide'' g0
       \<lparr>stype = ''helltide'', channelId = Some ''c1'', roleId = Some ''r1'', messageId = None\<rparr>
       (\<lparr>content = ''T'', embeds = [(''helltide'', ev0)], allowedMentions = None\<rparr>, w0)))
     = [g0]
   \<and> map messageId (events g0) = [None, None]
   \<and> effects (snd (deliver (env_at 1040000 True True (Some [None])) ''helltide'' g0
       \<lparr>stype = ''helltide'', channelId = Some ''c1'', roleId = Some ''r1'', messageId = None\<rparr>
       (\<lparr>content = ''T'', embeds = [(''helltide'', ev0)], allowedMentions = None\<rparr>, w0)))
     = [Broadcast ''c1'' \<lparr>content = ''T - <@&r1>'', embeds = [(''helltide'', ev0)],
                          allowedMentions = Some [''r1'']\<rparr> None (Some [None]),
        WriteBack ''G'' ''helltide'' ''c1'' None True]"
  by (simp add: eval_defs)

section \<open>The grace period\<close>

text \<open>
  Claim C5, as amended. For a Helltide occurrence without a record, a tick less than
  30 seconds after the timestamp only logs that the event is too recent: no record, no
  call. On a later tick at least 30 seconds and at most 5 minutes after the timestamp,
  the create is issued with the refresh timestamp of the event and the dispatch runs;
  when the create succeeds, the record is in the table.
\<close>

theorem grace_period_suppression:
  assumes unseen: "findFirst h (timestamp ev) (notifications w) = None"
    and early: "Date_now en1 h < timestamp ev * 1000 + 30 * 1000"
    and later: "timestamp ev * 1000 + 30 * 1000 \<le> Date_now en2 h
                \<and> Date_now en2 h \<le> timestamp ev * 1000 + 5 * 60 * 1000"
  shows "process_entry h en1 h ev w = info (TooRecent h) w
       \<and> process_entry h en2 h ev (process_entry h en1 h ev w)
           = dispatch en2 h ev
               (notification_create en2 h ev (refresh ev) (info (TooRecent h) w))
       \<and> (create_ok en2 h \<longrightarrow>
            findFirst h (timestamp ev)
                (notifications (process_entry h en2 h ev (process_entry h en1 h ev w)))
              = Some \<lparr>nid = fresh_id (notifications w), ntype = h, ndata = ev,
                       ntimestamp = timestamp ev, refreshTimestamp = refresh ev,
                       refreshed = False\<rparr>)"
proof -
  have first: "process_entry h en1 h ev w = info (TooRecent h) w"
    using unseen early by (simp add: process_entry_def Let_def duration_seconds_def)
  have unseen': "findFirst h (timestamp ev) (notifications (info (TooRecent h) w)) = None"
    using unseen by simp
  have second: "process_entry h en2 h ev (info (TooRecent h) w)
           = dispatch en2 h ev
               (notification_create en2 h ev (refresh ev) (info (TooRecent h) w))"
    using unseen' later
    by (simp add: process_entry_def Let_def duration_seconds_def duration_minutes_def)
  have stored: "findFirst h (timestamp ev)
                (notifications (dispatch en2 h ev
               (notification_create en2 h ev (refresh ev) (info (TooRecent h) w))))
              = Some \<lparr>nid = fresh_id (notifications w), ntype = h, ndata = ev,
                       ntimestamp = timestamp ev, refreshTimestamp = refresh ev,
                       refreshed = False\<rparr>"
    if "create_ok en2 h"
    using that unseen by (simp add: notification_create_notifications findFirst_append)
  show ?thesis using first second stored by simp
qed

text \<open>
  The theorem at the Helltide entry: nothing happens 20 s after the start; 40 s after
  it the record is created and both settings of the guild are served.
\<close>

theorem grace_period_suppression_witness:
  "findFirst ''helltide'' (timestamp ev0) (notifications w0) = None
   \<and> process_entry ''helltide'' (env_at 1020000 True True (Some [Some ''m1''])) ''helltide'' ev0 w0
       = info (TooRecent ''helltide'') w0
   \<and> findFirst ''helltide'' (timestamp ev0)
        (notifications
          (process_entry ''helltide'' (env_at 1040000 True True (Some [Some ''m1''])) ''helltide'' ev0
            (process_entry ''helltide'' (env_at 1020000 True True (Some [Some ''m1'']))
               ''helltide'' ev0 w0)))
       = Some \<lparr>nid = fresh_id (notifications w0), ntype = ''helltide'', ndata = ev0,
                ntimestamp = timestamp ev0, refreshTimestamp = refresh ev0, refreshed = False\<rparr>
   \<and> length (filter is_broadcast (effects
          (process_entry ''helltide'' (env_at 1040000 True True (Some [Some ''m1''])) ''helltide'' ev0
            (process_entry ''helltide'' (env_at 1020000 True True (Some [Some ''m1'']))
               ''helltide'' ev0 w0)))) = 2"
proof -
  let ?E1 = "env_at 1020000 True True (Some [Some ''m1''])"
  let ?E2 = "env_at 1040000 True True (Some [Some ''m1''])"
  have u: "findFirst ''helltide'' (timestamp ev0) (notifications w0) = None"
    by (simp add: eval_defs)
  have e: "Date_now ?E1 ''helltide'' < timestamp ev0 * 1000 + 30 * 1000"
    by (simp add: env_at_def ev0_def)
  have l: "timestamp ev0 * 1000 + 30 * 1000 \<le> Date_now ?E2 ''helltide''
           \<and> Date_now ?E2 ''helltide'' \<le> timestamp ev0 * 1000 + 5 * 60 * 1000"
    by (simp add: env_at_def ev0_def)
  have c: "create_ok ?E2 ''helltide''" by (simp add: env_at_def)
  have n: "length (filter is_broadcast (effects
          (dispatch ?E2 ''helltide'' ev0
             (notification_create ?E2 ''helltide'' ev0 (refresh ev0)
                (info (TooRecent ''helltide'') w0))))) = 2"
    by (simp add: eval_defs)
  note t = grace_period_suppression [OF u e l]
  have a: "process_entry ''helltide'' ?E1 ''helltide'' ev0 w0 = info (TooRecent ''helltide'') w0"
    using t by (rule conjunct1)
  have b: "process_entry ''helltide'' ?E2 ''helltide'' ev0
             (process_entry ''helltide'' ?E1 ''helltide'' ev0 w0)
           = dispatch ?E2 ''helltide'' ev0
               (notification_create ?E2 ''helltide'' ev0 (refresh ev0)
                  (info (TooRecent ''helltide'') w0))"
    using t by blast
  have s: "findFirst ''helltide'' (timestamp ev0)
        (notifications (process_entry ''helltide'' ?E2 ''helltide'' ev0
            (process_entry ''helltide'' ?E1 ''helltide'' ev0 w0)))
       = Some \<lparr>nid = fresh_id (notifications w0), ntype = ''helltide'', ndata = ev0,
                ntimestamp = timestamp ev0, refreshTimestamp = refresh ev0, refreshed = False\<rparr>"
    using t c by blast
  have n': "length (filter is_broadcast (effects
          (process_entry ''helltide'' ?E2 ''helltide'' ev0
            (process_entry ''helltide'' ?E1 ''helltide'' ev0 w0)))) = 2"
    by (simp only: b n)
  show ?thesis using u a s n' by blast
qed

text \<open>
  As stated the claim fails twice over. A first tick 400 s after the timestamp, with the
  grace period long elapsed, creates the record but broadcasts to nobody, although the
  guild is subscribed; and 40 s after the timestamp, when the create throws, no record is
  created.
\<close>

theorem grace_period_counterexample:
  "findFirst ''helltide'' (timestamp ev0) (notifications w0) = None
   \<and> getAllByEvent ''helltide'' (guilds w0) = [g0]
   \<and> timestamp ev0 * 1000 + 30 * 1000 \<le> (1400000::int)
   \<and> findFirst ''helltide'' (timestamp ev0)
        (notifications (process_entry ''helltide'' (env_at 1400000 True True (Some [Some ''m1'']))
           ''helltide'' ev0 w0)) \<noteq> None
   \<and> filter is_broadcast
        (effects (process_entry ''helltide'' (env_at 1400000 True True (Some [Some ''m1'']))
           ''helltide'' ev0 w0)) = []
   \<and> timestamp ev0 * 1000 + 30 * 1000 \<le> (1040000::int)
   \<and> notifications (process_entry ''helltide'' (env_at 1040000 False True (Some [Some ''m1'']))
        ''helltide'' ev0 w0) = []"
  by (simp add: eval_defs)

section \<open>Stale occurrences\<close>

text \<open>
  Claim C6. For an occurrence without a record, sighted more than 5 minutes after its
  timestamp, the create is the one call the tick makes for it: it is issued before the
  staleness check, the record is in the table when the create succeeds, and nothing is
  broadcast and no setting is written.
\<close>

theorem stale_occurrence_recorded_not_broadcast:
  assumes unseen: "findFirst k (timestamp ev) (notifications w) = None"
    and stale: "Date_now en k > timestamp ev * 1000 + 5 * 60 * 1000"
  shows "effects (process_entry h en k ev w)
           = effects w @ [DbCreate k ev (timestamp ev) (if k = h then refresh ev else 0)
                            (create_ok en k)]
       \<and> filter is_broadcast (effects (process_entry h en k ev w))
           = filter is_broadcast (effects w)
       \<and> guilds (process_entry h en k ev w) = guilds w
       \<and> (create_ok en k \<longrightarrow>
            findFirst k (timestamp ev) (notifications (process_entry h en k ev w))
              = Some \<lparr>nid = fresh_id (notifications w), ntype = k, ndata = ev,
                       ntimestamp = timestamp ev,
                       refreshTimestamp = (if k = h then refresh ev else 0),
                       refreshed = False\<rparr>)"
proof -
  have go: "\<not> (k = h \<and> Date_now en k < timestamp ev * 1000 + 30 * 1000)"
    using stale by simp
  have eq: "process_entry h en k ev w
              = info (TooOld k) (notification_create en k ev (if k = h then refresh ev else 0) w)"
    using create_branch [OF unseen go] stale by simp
  show ?thesis
    unfolding eq using created_found [OF unseen] by simp
qed

text \<open>
  The theorem at the Helltide entry, first seen 400 s after its start, with the guild
  subscribed.
\<close>

theorem stale_occurrence_recorded_not_broadcast_witness:
  "findFirst ''helltide'' (timestamp ev0) (notifications w0) = None
   \<and> getAllByEvent ''helltide'' (guilds w0) = [g0]
   \<and> effects (process_entry ''helltide'' (env_at 1400000 True True (Some [Some ''m1'']))
        ''helltide'' ev0 w0)
       = [DbCreate ''helltide'' ev0 1000 1600 True]
   \<and> findFirst ''helltide'' (timestamp ev0)
        (notifications (process_entry ''helltide'' (env_at 1400000 True True (Some [Some ''m1'']))
           ''helltide'' ev0 w0))
       = Some \<lparr>nid = 1, ntype = ''helltide'', ndata = ev0, ntimestamp = 1000,
                refreshTimestamp = 1600, refreshed = False\<rparr>"
proof -
  let ?E = "env_at 1400000 True True (Some [Some ''m1''])"
  have u: "findFirst ''helltide'' (timestamp ev0) (notifications w0) = None"
    by (simp add: eval_defs)
  have g: "getAllByEvent ''helltide'' (guilds w0) = [g0]"
    by (simp add: eval_defs)
  have s: "Date_now ?E ''helltide'' > timestamp ev0 * 1000 + 5 * 60 * 1000"
    by (simp add: env_at_def ev0_def)
  have c: "create_ok ?E ''helltide''" by (simp add: env_at_def)
  have v: "effects w0 = []" "fresh_id (notifications w0) = 1" "timestamp ev0 = 1000"
    "refresh ev0 = 1600"
    by (simp_all add: eval_defs)
  note t = stale_occurrence_recorded_not_broadcast [OF u s, of "''helltide''"]
  have a: "effects (process_entry ''helltide'' ?E ''helltide'' ev0 w0)
       = [DbCreate ''helltide'' ev0 1000 1600 True]"
    using t c v by simp
  have b: "findFirst ''helltide'' (timestamp ev0)
        (notifications (process_entry ''helltide'' ?E ''helltide'' ev0 w0))
       = Some \<lparr>nid = 1, ntype = ''helltide'', ndata = ev0, ntimestamp = 1000,
                refreshTimestamp = 1600, refreshed = False\<rparr>"
    using t c v by simp
  show ?thesis using u g a b by blast
qed

section \<open>Source unavailable\<close>

text \<open>
  Claim C7. When the status fetch gave nothing, or the status reports the event service
  as not available, or the events fetch gave nothing, the tick returns before the loop:
  the table, the guild repository and the calls made are what they were; only log
  lines are added.
\<close>

theorem source_unavailable_no_side_effects:
  assumes "(case st of None \<Rightarrow> True | Some s \<Rightarrow> \<not> event_service s) \<or> evs = None"
  shows "notifications (refresh_tick h en st evs w) = notifications w
       \<and> guilds (refresh_tick h en st evs w) = guilds w
       \<and> effects (refresh_tick h en st evs w) = effects w"
  using assms by (auto simp add: refresh_tick_def Let_def split: option.splits)

text \<open>
  The theorem at a tick whose status says the service is down while the feed holds the
  Helltide entry, 40 s old; with the service up the same tick does make calls.
\<close>

theorem source_unavailable_no_side_effects_witness:
  "notifications (refresh_tick ''helltide'' (env_at 1040000 True True (Some [Some ''m1'']))
       (Some \<lparr>event_service = False\<rparr>) (Some [(''helltide'', ev0)]) w0) = []
   \<and> guilds (refresh_tick ''helltide'' (env_at 1040000 True True (Some [Some ''m1'']))
       (Some \<lparr>event_service = False\<rparr>) (Some [(''helltide'', ev0)]) w0) = [g0]
   \<and> effects (refresh_tick ''helltide'' (env_at 1040000 True True (Some [Some ''m1'']))
       (Some \<lparr>event_service = False\<rparr>) (Some [(''helltide'', ev0)]) w0) = []
   \<and> effects (refresh_tick ''helltide'' (env_at 1040000 True True (Some [Some ''m1'']))
       (Some \<lparr>event_service = True\<rparr>) (Some [(''helltide'', ev0)]) w0) \<noteq> []"
proof -
  have "effects (refresh_tick ''helltide'' (env_at 1040000 True True (Some [Some ''m1'']))
       (Some \<lparr>event_service = True\<rparr>) (Some [(''helltide'', ev0)]) w0) \<noteq> []"
    by (simp add: eval_defs)
  then show ?thesis
    using source_unavailable_no_side_effects
      [of "Some \<lparr>event_service = False\<rparr>" "Some [(''helltide'', ev0)]" "''helltide''"
          "env_at 1040000 True True (Some [Some ''m1''])" w0]
    by (simp add: w0_def)
qed

section \<open>A create that fails\<close>

text \<open>
  Claim C8, as amended. When the create for a new occurrence throws, the error is
  caught and logged and the table is left as it was; unless the occurrence is already
  more than 5 minutes old, the dispatch to the subscribers runs all the same; and the
  remaining entries of the tick are processed after it.
\<close>

theorem create_failure_best_effort:
  assumes unseen: "findFirst k (timestamp ev) (notifications w) = None"
    and go: "\<not> (k = h \<and> Date_now en k < timestamp ev * 1000 + 30 * 1000)"
    and fails: "\<not> create_ok en k"
  shows "notification_create en k ev rt w
           = info (FailedToCreate k) (perform (DbCreate k ev (timestamp ev) rt False) w)
       \<and> notifications (process_entry h en k ev w) = notifications w
       \<and> FailedToCreate k \<in> set (logs (process_entry h en k ev w))
       \<and> (Date_now en k \<le> timestamp ev * 1000 + 5 * 60 * 1000 \<longrightarrow>
            process_entry h en k ev w
              = dispatch en k ev
                  (info (FailedToCreate k)
                     (perform (DbCreate k ev (timestamp ev) (if k = h then refresh ev else 0) False)
                        w)))
       \<and> entries_loop h en ((k, ev) # rest) w
           = entries_loop h en rest (process_entry h en k ev w)"
proof -
  let ?rt = "if k = h then refresh ev else 0"
  have cr: "notification_create en k ev rt w
           = info (FailedToCreate k) (perform (DbCreate k ev (timestamp ev) rt False) w)" for rt
    using fails by (simp add: notification_create_def)
  have eq: "process_entry h en k ev w =
           (if Date_now en k > timestamp ev * 1000 + 5 * 60 * 1000
            then info (TooOld k) (notification_create en k ev ?rt w)
            else dispatch en k ev (notification_create en k ev ?rt w))"
    using create_branch [OF unseen go] .
  have tab: "notifications (process_entry h en k ev w) = notifications w"
    unfolding eq using fails by (simp add: notification_create_notifications)
  have lg: "FailedToCreate k \<in> set (logs (notification_create en k ev ?rt w))"
    by (simp add: cr)
  have keep: "l \<in> set (logs w') \<Longrightarrow> l \<in> set (logs (dispatch en k ev w'))" for l w'
    using dispatch_logs [of en k ev w'] by auto
  have lg': "FailedToCreate k \<in> set (logs (process_entry h en k ev w))"
    unfolding eq using lg keep by simp
  have fire: "process_entry h en k ev w
              = dispatch en k ev
                  (info (FailedToCreate k) (perform (DbCreate k ev (timestamp ev) ?rt False) w))"
    if "Date_now en k \<le> timestamp ev * 1000 + 5 * 60 * 1000"
    using that eq cr [of ?rt] by simp
  show ?thesis using cr tab lg' fire by simp
qed

text \<open>
  The theorem at the Helltide entry, 40 s after its start, with a create that throws:
  the table stays empty, the failure is logged, both settings of the guild are served,
  and the entry that follows in the feed is processed next.
\<close>

theorem create_failure_best_effort_witness:
  "findFirst ''helltide'' (timestamp ev0) (notifications w0) = None
   \<and> \<not> create_ok (env_at 1040000 False True (Some [Some ''m1''])) ''helltide''
   \<and> notifications (process_entry ''helltide'' (env_at 1040000 False True (Some [Some ''m1'']))
        ''helltide'' ev0 w0) = notifications w0
   \<and> FailedToCreate ''helltide''
        \<in> set (logs (process_entry ''helltide'' (env_at 1040000 False True (Some [Some ''m1'']))
             ''helltide'' ev0 w0))
   \<and> length (filter is_broadcast
        (effects (process_entry ''helltide'' (env_at 1040000 False True (Some [Some ''m1'']))
           ''helltide'' ev0 w0))) = 2
   \<and> entries_loop ''helltide'' (env_at 1040000 False True (Some [Some ''m1'']))
        [(''helltide'', ev0), (''legion'', ev0)] w0
       = entries_loop ''helltide'' (env_at 1040000 False True (Some [Some ''m1'']))
           [(''legion'', ev0)]
           (process_entry ''helltide'' (env_at 1040000 False True (Some [Some ''m1'']))
              ''helltide'' ev0 w0)"
proof -
  let ?E = "env_at 1040000 False True (Some [Some ''m1''])"
  have u: "findFirst ''helltide'' (timestamp ev0) (notifications w0) = None"
    by (simp add: eval_defs)
  have g: "\<not> (''helltide'' = ''helltide''
              \<and> Date_now ?E ''helltide'' < timestamp ev0 * 1000 + 30 * 1000)"
    by (simp add: env_at_def ev0_def)
  have f: "\<not> create_ok ?E ''helltide''" by (simp add: env_at_def)
  have d: "Date_now ?E ''helltide'' \<le> timestamp ev0 * 1000 + 5 * 60 * 1000"
    by (simp add: env_at_def ev0_def)
  have n: "length (filter is_broadcast
        (effects (dispatch ?E ''helltide'' ev0
                  (info (FailedToCreate ''helltide'')
                     (perform (DbCreate ''helltide'' ev0 (timestamp ev0)
                        (if ''helltide'' = ''helltide'' then refresh ev0 else 0) False) w0))))) = 2"
    by (simp add: eval_defs)
  note t = create_failure_best_effort [OF u g f, of 0 "[(''legion'', ev0)]"]
  have a: "process_entry ''helltide'' ?E ''helltide'' ev0 w0
              = dispatch ?E ''helltide'' ev0
                  (info (FailedToCreate ''helltide'')
                     (perform (DbCreate ''helltide'' ev0 (timestamp ev0)
                        (if ''helltide'' = ''helltide'' then refresh ev0 else 0) False) w0))"
    using t d by blast
  have n': "length (filter is_broadcast
        (effects (process_entry ''helltide'' ?E ''helltide'' ev0 w0))) = 2"
    by (simp only: a n)
  show ?thesis using u f t n' by blast
qed

text \<open>
  As stated the claim fails: when the create throws for an occurrence first seen 400 s
  after its start, the failed create is the only call of the tick, and the subscribed
  guild gets no broadcast.
\<close>

theorem create_failure_counterexample:
  "findFirst ''helltide'' (timestamp ev0) (notifications w0) = None
   \<and> getAllByEvent ''helltide'' (guilds w0) = [g0]
   \<and> \<not> create_ok (env_at 1400000 False True (Some [Some ''m1''])) ''helltide''
   \<and> effects (process_entry ''helltide'' (env_at 1400000 False True (Some [Some ''m1'']))
        ''helltide'' ev0 w0)
       = [DbCreate ''helltide'' ev0 1000 1600 False]"
  by (simp add: eval_defs)

section \<open>The refresh is persisted first\<close>

text \<open>
  Claim C9. When a refresh-trigger fires, the update of the record to
  \<open>refreshed: true\<close> is the first call of the entry: everything after it is a broadcast
  of this refresh or a write-back. When the update succeeds, the table already holds
  the refreshed record when the dispatch starts, so whatever the broadcaster answers,
  no later run of ticks broadcasts for the occurrence again.
\<close>

theorem refresh_persisted_before_broadcast:
  assumes found: "findFirst k (timestamp ev) (notifications w) = Some r"
    and pending: "refreshTimestamp r > 0 \<and> \<not> refreshed r"
    and fire: "ntimestamp r * 1000 \<le> Date_now en k
               \<and> Date_now en k \<le> ntimestamp r * 1000 + 3600 * 1000
               \<and> refreshTimestamp r * 1000 \<le> Date_now en k"
  shows "process_entry h en k ev w = dispatch en k ev (notification_update en k (nid r) w)
       \<and> (\<exists>xs. effects (process_entry h en k ev w)
                   = effects w @ DbUpdate (nid r) (update_ok en k) # xs
               \<and> (\<forall>e \<in> set xs. from_dispatch k ev e))
       \<and> (update_ok en k \<longrightarrow>
            findFirst k (timestamp ev) (notifications (notification_update en k (nid r) w))
              = Some (r\<lparr>refreshed := True\<rparr>)
            \<and> (\<forall>ts. filter (is_broadcast_for k (timestamp ev))
                       (effects (run h ts (process_entry h en k ev w)))
                     = filter (is_broadcast_for k (timestamp ev))
                         (effects (process_entry h en k ev w))))"
proof -
  let ?w = "process_entry h en k ev w"
  have eq: "?w = dispatch en k ev (notification_update en k (nid r) w)"
    using refresh_branch [OF found, of h en] pending fire by simp
  have order: "\<exists>xs. effects ?w = effects w @ DbUpdate (nid r) (update_ok en k) # xs
               \<and> (\<forall>e \<in> set xs. from_dispatch k ev e)"
    unfolding eq by (rule dispatch_after_update_effects)
  have later: "findFirst k (timestamp ev) (notifications (notification_update en k (nid r) w))
              = Some (r\<lparr>refreshed := True\<rparr>)
            \<and> (\<forall>ts. filter (is_broadcast_for k (timestamp ev)) (effects (run h ts ?w))
                     = filter (is_broadcast_for k (timestamp ev)) (effects ?w))"
    if ok: "update_ok en k"
  proof -
    have t: "findFirst k (timestamp ev) (notifications (notification_update en k (nid r) w))
               = Some (r\<lparr>refreshed := True\<rparr>)"
      using found ok by (simp add: findFirst_mark)
    have "findFirst k (timestamp ev) (notifications ?w) = Some (r\<lparr>refreshed := True\<rparr>)"
      unfolding eq using after_update [OF found ok] .
    then have "handled k (timestamp ev) (notifications ?w)"
      by (simp add: handled_def)
    then show ?thesis using t run_broadcasts by blast
  qed
  show ?thesis using eq order later by blast
qed

text \<open>
  The theorem at the record \<open>n0\<close>, with a broadcaster that fails every delivery: the
  two attempts of the tick are the only ones ever made for the refresh.
\<close>

theorem refresh_persisted_before_broadcast_witness:
  "findFirst ''helltide'' (timestamp ev0) (notifications w1) = Some n0
   \<and> effects (process_entry ''helltide'' (env_at 1700000 True True None) ''helltide'' ev0 w1)
       = [DbUpdate 1 True,
          Broadcast ''c1'' \<lparr>content = ''T - <@&r1>'', embeds = [(''helltide'', ev0)],
                            allowedMentions = Some [''r1'']\<rparr> None None,
          Broadcast ''c2'' \<lparr>content = ''T - <@&r1> - <@&r2>'', embeds = [(''helltide'', ev0)],
                            allowedMentions = Some [''r2'']\<rparr> None None]
   \<and> filter (is_broadcast_for ''helltide'' (timestamp ev0))
        (effects (run ''helltide''
           [(env_at 1760000 True True (Some [Some ''m2'']), Some \<lparr>event_service = True\<rparr>,
             Some [(''helltide'', ev0)])]
           (process_entry ''helltide'' (env_at 1700000 True True None) ''helltide'' ev0 w1)))
       = filter (is_broadcast_for ''helltide'' (timestamp ev0))
           (effects (process_entry ''helltide'' (env_at 1700000 True True None)
              ''helltide'' ev0 w1))"
proof -
  let ?E = "env_at 1700000 True True None"
  have f: "findFirst ''helltide'' (timestamp ev0) (notifications w1) = Some n0"
    by (simp add: eval_defs)
  have p: "0 < refreshTimestamp n0 \<and> \<not> refreshed n0"
    by (simp add: n0_def)
  have c: "ntimestamp n0 * 1000 \<le> Date_now ?E ''helltide''
            \<and> Date_now ?E ''helltide'' \<le> ntimestamp n0 * 1000 + 3600 * 1000
            \<and> refreshTimestamp n0 * 1000 \<le> Date_now ?E ''helltide''"
    by (simp add: n0_def env_at_def)
  have u: "update_ok ?E ''helltide''" by (simp add: env_at_def)
  have e: "effects (process_entry ''helltide'' ?E ''helltide'' ev0 w1)
       = [DbUpdate 1 True,
          Broadcast ''c1'' \<lparr>content = ''T - <@&r1>'', embeds = [(''helltide'', ev0)],
                            allowedMentions = Some [''r1'']\<rparr> None None,
          Broadcast ''c2'' \<lparr>content = ''T - <@&r1> - <@&r2>'', embeds = [(''helltide'', ev0)],
                            allowedMentions = Some [''r2'']\<rparr> None None]"
    by (simp add: eval_defs)
  from refresh_persisted_before_broadcast [OF f p c, of "''helltide''"] u
  show ?thesis using f e by blast
qed

section \<open>Helltide alone has a grace period and a refresh\<close>

text \<open>
  Claim C10. For an occurrence without a record: an entry of any key other than
  Helltide is created on the spot, whatever the clock says, with refresh timestamp 0;
  once created, its record counts as fully handled on every later run of ticks, so
  no broadcast is made for it again. A Helltide entry is held back while less than
  30 seconds have passed since its timestamp, and is created afterwards with the
  refresh timestamp copied from the \<open>refresh\<close> field of the event.
\<close>

theorem helltide_only_grace_and_refresh:
  assumes unseen: "findFirst k (timestamp ev) (notifications w) = None"
  shows "(k \<noteq> h \<longrightarrow>
            (\<exists>xs. effects (process_entry h en k ev w)
                    = effects w @ DbCreate k ev (timestamp ev) 0 (create_ok en k) # xs)
            \<and> (create_ok en k \<longrightarrow>
                 findFirst k (timestamp ev) (notifications (process_entry h en k ev w))
                   = Some \<lparr>nid = fresh_id (notifications w), ntype = k, ndata = ev,
                            ntimestamp = timestamp ev, refreshTimestamp = 0,
                            refreshed = False\<rparr>
                 \<and> (\<forall>ts. handled k (timestamp ev)
                            (notifications (run h ts (process_entry h en k ev w)))
                         \<and> filter (is_broadcast_for k (timestamp ev))
                              (effects (run h ts (process_entry h en k ev w)))
                            = filter (is_broadcast_for k (timestamp ev))
                                (effects (process_entry h en k ev w)))))
       \<and> (k = h \<and> Date_now en k < timestamp ev * 1000 + 30 * 1000 \<longrightarrow>
            process_entry h en k ev w = info (TooRecent k) w)
       \<and> (k = h \<and> \<not> Date_now en k < timestamp ev * 1000 + 30 * 1000 \<longrightarrow>
            (\<exists>xs. effects (process_entry h en k ev w)
                    = effects w @ DbCreate k ev (timestamp ev) (refresh ev) (create_ok en k) # xs)
            \<and> (create_ok en k \<longrightarrow>
                 findFirst k (timestamp ev) (notifications (process_entry h en k ev w))
                   = Some \<lparr>nid = fresh_id (notifications w), ntype = k, ndata = ev,
                            ntimestamp = timestamp ev, refreshTimestamp = refresh ev,
                            refreshed = False\<rparr>))"
proof -
  let ?w = "process_entry h en k ev w"
  have found: "findFirst k (timestamp ev) (notifications ?w)
           = Some \<lparr>nid = fresh_id (notifications w), ntype = k, ndata = ev,
                    ntimestamp = timestamp ev,
                    refreshTimestamp = (if k = h then refresh ev else 0), refreshed = False\<rparr>"
    if go: "\<not> (k = h \<and> Date_now en k < timestamp ev * 1000 + 30 * 1000)"
      and ok: "create_ok en k"
  proof -
    have "notifications ?w
            = notifications (notification_create en k ev (if k = h then refresh ev else 0) w)"
      unfolding create_branch [OF unseen go] by simp
    then show ?thesis
      using created_found [OF unseen ok, of "if k = h then refresh ev else 0"] by (simp only:)
  qed
  have eff: "\<exists>xs. effects ?w
      = effects w @ DbCreate k ev (timestamp ev) (if k = h then refresh ev else 0)
                      (create_ok en k) # xs"
    if go: "\<not> (k = h \<and> Date_now en k < timestamp ev * 1000 + 30 * 1000)"
    unfolding create_branch [OF unseen go] by (rule create_then_effects)
  have other: "(\<exists>xs. effects ?w = effects w @ DbCreate k ev (timestamp ev) 0 (create_ok en k) # xs)
            \<and> (create_ok en k \<longrightarrow>
                 findFirst k (timestamp ev) (notifications ?w)
                   = Some \<lparr>nid = fresh_id (notifications w), ntype = k, ndata = ev,
                            ntimestamp = timestamp ev, refreshTimestamp = 0,
                            refreshed = False\<rparr>
                 \<and> (\<forall>ts. handled k (timestamp ev) (notifications (run h ts ?w))
                         \<and> filter (is_broadcast_for k (timestamp ev)) (effects (run h ts ?w))
                            = filter (is_broadcast_for k (timestamp ev)) (effects ?w)))"
    if ne: "k \<noteq> h"
  proof -
    have go: "\<not> (k = h \<and> Date_now en k < timestamp ev * 1000 + 30 * 1000)"
      using ne by simp
    have e: "\<exists>xs. effects ?w = effects w @ DbCreate k ev (timestamp ev) 0 (create_ok en k) # xs"
      using eff [OF go] ne by simp
    have l: "findFirst k (timestamp ev) (notifications ?w)
                   = Some \<lparr>nid = fresh_id (notifications w), ntype = k, ndata = ev,
                            ntimestamp = timestamp ev, refreshTimestamp = 0,
                            refreshed = False\<rparr>
                 \<and> (\<forall>ts. handled k (timestamp ev) (notifications (run h ts ?w))
                         \<and> filter (is_broadcast_for k (timestamp ev)) (effects (run h ts ?w))
                            = filter (is_broadcast_for k (timestamp ev)) (effects ?w))"
      if ok: "create_ok en k"
    proof -
      have f: "findFirst k (timestamp ev) (notifications ?w)
                   = Some \<lparr>nid = fresh_id (notifications w), ntype = k, ndata = ev,
                            ntimestamp = timestamp ev, refreshTimestamp = 0,
                            refreshed = False\<rparr>"
        using found [OF go ok] ne by simp
      then have "handled k (timestamp ev) (notifications ?w)"
        by (simp add: handled_def)
      then show ?thesis using f run_handled run_broadcasts by blast
    qed
    show ?thesis using e l by blast
  qed
  have grace: "?w = info (TooRecent k) w"
    if "k = h \<and> Date_now en k < timestamp ev * 1000 + 30 * 1000"
    using that unseen by (auto simp add: process_entry_def Let_def duration_seconds_def)
  have hell: "(\<exists>xs. effects ?w
                    = effects w @ DbCreate k ev (timestamp ev) (refresh ev) (create_ok en k) # xs)
            \<and> (create_ok en k \<longrightarrow>
                 findFirst k (timestamp ev) (notifications ?w)
                   = Some \<lparr>nid = fresh_id (notifications w), ntype = k, ndata = ev,
                            ntimestamp = timestamp ev, refreshTimestamp = refresh ev,
                            refreshed = False\<rparr>)"
    if h: "k = h \<and> \<not> Date_now en k < timestamp ev * 1000 + 30 * 1000"
  proof -
    have go: "\<not> (k = h \<and> Date_now en k < timestamp ev * 1000 + 30 * 1000)"
      using h by blast
    have kh: "(if k = h then refresh ev else 0) = refresh ev"
      using h by simp
    show ?thesis using eff [OF go] found [OF go] unfolding kh by blast
  qed
  show ?thesis using other grace hell by blast
qed

text \<open>
  The theorem 10 s after the start of the entry: under the key \<open>legion\<close> the record is
  created at once with refresh timestamp 0 and is fully handled a tick later; under the
  Helltide key the same entry is held back.
\<close>

theorem helltide_only_grace_and_refresh_witness:
  "findFirst ''legion'' (timestamp ev0) (notifications w0) = None
   \<and> findFirst ''legion'' (timestamp ev0)
        (notifications (process_entry ''helltide'' (env_at 1010000 True True (Some [Some ''m1'']))
           ''legion'' ev0 w0))
       = Some \<lparr>nid = fresh_id (notifications w0), ntype = ''legion'', ndata = ev0,
                ntimestamp = timestamp ev0, refreshTimestamp = 0, refreshed = False\<rparr>
   \<and> handled ''legion'' (timestamp ev0)
        (notifications (run ''helltide''
           [(env_at 1700000 True True (Some [Some ''m2'']), Some \<lparr>event_service = True\<rparr>,
             Some [(''legion'', ev0)])]
           (process_entry ''helltide'' (env_at 1010000 True True (Some [Some ''m1'']))
              ''legion'' ev0 w0)))
   \<and> findFirst ''helltide'' (timestamp ev0) (notifications w0) = None
   \<and> process_entry ''helltide'' (env_at 1010000 True True (Some [Some ''m1'']))
        ''helltide'' ev0 w0 = info (TooRecent ''helltide'') w0"
proof -
  let ?E = "env_at 1010000 True True (Some [Some ''m1''])"
  have u: "findFirst ''legion'' (timestamp ev0) (notifications w0) = None"
    by (simp add: eval_defs)
  have u': "findFirst ''helltide'' (timestamp ev0) (notifications w0) = None"
    by (simp add: eval_defs)
  have ne: "''legion'' \<noteq> ''helltide''" by simp
  have c: "create_ok ?E ''legion''" by (simp add: env_at_def)
  have e: "''helltide'' = ''helltide''
           \<and> Date_now ?E ''helltide'' < timestamp ev0 * 1000 + 30 * 1000"
    by (simp add: env_at_def ev0_def)
  note t = helltide_only_grace_and_refresh [OF u, of "''helltide''" ?E]
  note t' = helltide_only_grace_and_refresh [OF u', of "''helltide''" ?E]
  have a: "findFirst ''legion'' (timestamp ev0)
        (notifications (process_entry ''helltide'' ?E ''legion'' ev0 w0))
       = Some \<lparr>nid = fresh_id (notifications w0), ntype = ''legion'', ndata = ev0,
                ntimestamp = timestamp ev0, refreshTimestamp = 0, refreshed = False\<rparr>"
    using t ne c by blast
  have b: "handled ''legion'' (timestamp ev0)
        (notifications (run ''helltide''
           [(env_at 1700000 True True (Some [Some ''m2'']), Some \<lparr>event_service = True\<rparr>,
             Some [(''legion'', ev0)])]
           (process_entry ''helltide'' ?E ''legion'' ev0 w0)))"
    using t ne c by blast
  have d: "process_entry ''helltide'' ?E ''helltide'' ev0 w0 = info (TooRecent ''helltide'') w0"
    using t' e by blast
  show ?thesis using u u' a b d by blast
qed

end
